theory Spec2Isabelle
  imports Complex_Main "HOL-Library.Monad_Syntax"
begin

section \<open>Output routines of the aither flow solver (src/output.cpp)\<close>

text \<open>
  The development embeds the functions of \<^verbatim>\<open>output.cpp\<close>: \<^verbatim>\<open>WriteCellCenter\<close>,
  \<^verbatim>\<open>WriteFun\<close>, \<^verbatim>\<open>WriteRes\<close>, \<^verbatim>\<open>WriteResiduals\<close>, \<^verbatim>\<open>PrintHeaders\<close>,
  \<^verbatim>\<open>PrintResiduals\<close>, \<^verbatim>\<open>Recombine\<close> and \<^verbatim>\<open>SplitBlockNumber\<close>.

  Conventions.
  \<^item> A C++ \<^verbatim>\<open>int\<close> is an \<open>int\<close>: the integers of these routines are block counts, cell
    counts and cell indices, and no arithmetic on them can leave the 32-bit range for a
    grid that fits in memory. The exception is \<^verbatim>\<open>WriteRes\<close>, whose sums of iteration
    numbers are wrapped to 32 bits.
  \<^item> A C++ \<^verbatim>\<open>double\<close> is a \<open>real\<close>: the properties below are about which quantity is
    computed and where it is written, not about rounding, infinities or NaN.
  \<^item> Reading a \<^verbatim>\<open>std::vector\<close> outside its range is undefined behaviour in C++; here
    it is the value \<open>None\<close> of an option type, so that it is a visible branch.
  \<^item> The classes \<^verbatim>\<open>procBlock\<close>, \<^verbatim>\<open>primVars\<close>, \<^verbatim>\<open>decomposition\<close>, \<^verbatim>\<open>input\<close>,
    \<^verbatim>\<open>idealGas\<close>, \<^verbatim>\<open>sutherland\<close>, \<^verbatim>\<open>resid\<close>, \<^verbatim>\<open>genArray\<close>, \<^verbatim>\<open>vector3d\<close> and
    \<^verbatim>\<open>tensor\<close> are declared in headers that are not part of the sources at hand. Each
    is a record with one field per accessor that \<^verbatim>\<open>output.cpp\<close> calls.
\<close>

subsection \<open>Data model\<close>

record vector3d =
  X :: real
  Y :: real
  Z :: real

text \<open>
  Modelled from the spec: \<^verbatim>\<open>vector3d::Mag\<close> (vector3d.hpp is not among the sources) is the
  Euclidean magnitude of the three components.
\<close>

definition Mag :: "vector3d \<Rightarrow> real" where
  "Mag v = sqrt (X v * X v + Y v * Y v + Z v * Z v)"

record tensor =
  XX :: real
  XY :: real
  XZ :: real
  YX :: real
  YY :: real
  YZ :: real
  ZX :: real
  ZY :: real
  ZZ :: real

record primVars =
  Rho :: real
  U :: real
  V :: real
  W :: real
  P :: real
  Tke :: real
  Omega :: real

definition Velocity :: "primVars \<Rightarrow> vector3d" where
  "Velocity s = \<lparr>X = U s, Y = V s, Z = W s\<rparr>"

record procBlock =
  NumI :: int
  NumJ :: int
  NumK :: int
  NumGhosts :: int
  State :: "int \<Rightarrow> int \<Rightarrow> int \<Rightarrow> primVars"
  Center :: "int \<Rightarrow> int \<Rightarrow> int \<Rightarrow> vector3d"
  Dt :: "int \<Rightarrow> int \<Rightarrow> int \<Rightarrow> real"
  Temperature :: "int \<Rightarrow> int \<Rightarrow> int \<Rightarrow> real"
  Rank :: int
  GlobalPos :: int
  IsTurbulent :: bool
  EddyViscosity :: "int \<Rightarrow> int \<Rightarrow> int \<Rightarrow> real"
  Viscosity :: "int \<Rightarrow> int \<Rightarrow> int \<Rightarrow> real"
  WallDist :: "int \<Rightarrow> int \<Rightarrow> int \<Rightarrow> real"
  VelGrad :: "int \<Rightarrow> int \<Rightarrow> int \<Rightarrow> tensor"
  TempGrad :: "int \<Rightarrow> int \<Rightarrow> int \<Rightarrow> vector3d"
  TkeGrad :: "int \<Rightarrow> int \<Rightarrow> int \<Rightarrow> vector3d"
  OmegaGrad :: "int \<Rightarrow> int \<Rightarrow> int \<Rightarrow> vector3d"
  Residual :: "int \<Rightarrow> int \<Rightarrow> int \<Rightarrow> int \<Rightarrow> real"

text \<open>
  The decomposition: the parent (original) block of every block after the decomposition,
  and the list of splits in historical order. A split records the lower block (which keeps
  its number), the upper block (which is appended to the block vector), the index at which
  the lower block was cut, counted in the cells of the block being cut, and the direction.
\<close>

record split =
  BlkLower :: int
  BlkUpper :: int
  Index :: int
  Dir :: string

record decomposition =
  parBlock :: "int list"
  splitHist :: "split list"

text \<open>Reading element \<open>a\<close> of a vector; \<open>None\<close> outside its range.\<close>

definition vec_at :: "'a list \<Rightarrow> int \<Rightarrow> 'a option" where
  "vec_at xs a = (if 0 \<le> a \<and> a < int (length xs) then Some (xs ! nat a) else None)"

definition NumSplits :: "decomposition \<Rightarrow> int" where
  "NumSplits d = int (length (splitHist d))"

definition ParentBlock :: "decomposition \<Rightarrow> int \<Rightarrow> int option" where
  "ParentBlock d a = vec_at (parBlock d) a"

definition SplitHistBlkLower :: "decomposition \<Rightarrow> int \<Rightarrow> int option" where
  "SplitHistBlkLower d a = map_option BlkLower (vec_at (splitHist d) a)"

definition SplitHistBlkUpper :: "decomposition \<Rightarrow> int \<Rightarrow> int option" where
  "SplitHistBlkUpper d a = map_option BlkUpper (vec_at (splitHist d) a)"

definition SplitHistIndex :: "decomposition \<Rightarrow> int \<Rightarrow> int option" where
  "SplitHistIndex d a = map_option Index (vec_at (splitHist d) a)"

definition SplitHistDir :: "decomposition \<Rightarrow> int \<Rightarrow> string option" where
  "SplitHistDir d a = map_option Dir (vec_at (splitHist d) a)"

subsection \<open>SplitBlockNumber\<close>

text \<open>
  \<^verbatim>\<open>pair<vector3d<int>, vector3d<int>>\<close>: the lower and the upper extents of a block in
  the index space of its recombined block.
\<close>

type_synonym dims = "(int \<times> int \<times> int) \<times> (int \<times> int \<times> int)"

definition initialLower :: "int \<times> int \<times> int" where
  "initialLower = (0, 0, 0)"

text \<open>The first loop: every recombined block starts at the origin and ends at its size.\<close>

definition initial_blkDims :: "procBlock list \<Rightarrow> dims list" where
  "initial_blkDims vars = map (\<lambda>b. (initialLower, (NumI b, NumJ b, NumK b))) vars"

text \<open>
  The three branches on the direction of the split: the new entry is a copy of the entry of
  the lower block, with the split index added to one component of \<^verbatim>\<open>first\<close>.
\<close>

definition splitBlk :: "string \<Rightarrow> int \<Rightarrow> dims \<Rightarrow> dims" where
  "splitBlk d n e = (case e of ((li, lj, lk), u) \<Rightarrow>
     if d = ''i'' then ((li + n, lj, lk), u)
     else if d = ''j'' then ((li, lj + n, lk), u)
     else ((li, lj, lk + n), u))"

text \<open>The test of lines 858 to 863, without its negation.\<close>

definition in_upper_split :: "dims \<Rightarrow> int \<Rightarrow> int \<Rightarrow> int \<Rightarrow> bool" where
  "in_upper_split e ii jj kk = (case e of ((li, lj, lk), (ui, uj, uk)) \<Rightarrow>
     ii \<le> ui \<and> jj \<le> uj \<and> kk \<le> uk \<and> ii \<ge> li \<and> jj \<ge> lj \<and> kk \<ge> lk)"

text \<open>
  The loop over all splits. The list argument holds the splits \<open>ss, ss + 1, \<dots>\<close> that are
  still to be visited, so its head is what the accessors return at \<open>ss\<close>; \<open>nvars\<close> is
  \<^verbatim>\<open>vars.size()\<close>.
\<close>

fun SplitBlockNumber_loop ::
  "decomposition \<Rightarrow> nat \<Rightarrow> int \<Rightarrow> int \<Rightarrow> int \<Rightarrow> int \<Rightarrow> split list \<Rightarrow> nat \<Rightarrow>
   dims list \<Rightarrow> int \<Rightarrow> int option" where
  "SplitBlockNumber_loop d nvars blk ii jj kk [] ss blkDims ind = Some ind"
| "SplitBlockNumber_loop d nvars blk ii jj kk (s # rest) ss blkDims ind =
     do {
       par \<leftarrow> ParentBlock d (int ss + int nvars);
       if blk \<noteq> par then
         SplitBlockNumber_loop d nvars blk ii jj kk rest (Suc ss)
           (blkDims @ [(initialLower, initialLower)]) ind
       else do {
         low \<leftarrow> vec_at blkDims (BlkLower s);
         let blkDims' = blkDims @ [splitBlk (Dir s) (Index s) low];
         up \<leftarrow> vec_at blkDims' (BlkUpper s);
         if \<not> in_upper_split up ii jj kk then Some (BlkLower s)
         else SplitBlockNumber_loop d nvars blk ii jj kk rest (Suc ss) blkDims' (BlkUpper s)
       }
     }"

definition SplitBlockNumber ::
  "procBlock list \<Rightarrow> decomposition \<Rightarrow> int \<Rightarrow> int \<Rightarrow> int \<Rightarrow> int \<Rightarrow> int option" where
  "SplitBlockNumber vars decomp blk ii jj kk =
     (let blkDims = initial_blkDims vars; ind = blk in
      if NumSplits decomp = 0 then Some ind
      else SplitBlockNumber_loop decomp (length vars) blk ii jj kk (splitHist decomp) 0
             blkDims ind)"

subsection \<open>Which block owns a cell\<close>

text \<open>
  Modelled from the spec: \<^verbatim>\<open>procBlock::Split\<close> and the decomposition that records the
  splits are in procBlock.cpp and boundaryConditions.cpp, which are not among the sources.
  By sections 3 and 4.7 of the specification a split cuts the lower child at the recorded
  index along the recorded axis; the lower child keeps the parent's number and the cells
  below the index, the upper child is appended and takes the cells from the index on. The
  extents are kept in the index space of the recombined block, lower bound included and
  upper bound excluded.
\<close>

definition cut :: "string \<Rightarrow> int \<Rightarrow> dims \<Rightarrow> dims \<times> dims" where
  "cut d n e = (case e of ((li, lj, lk), (ui, uj, uk)) \<Rightarrow>
     if d = ''i'' then (((li, lj, lk), (li + n, uj, uk)), ((li + n, lj, lk), (ui, uj, uk)))
     else if d = ''j'' then (((li, lj, lk), (ui, lj + n, uk)), ((li, lj + n, lk), (ui, uj, uk)))
     else (((li, lj, lk), (ui, uj, lk + n)), ((li, lj, lk + n), (ui, uj, uk))))"

fun split_extents :: "dims list \<Rightarrow> split list \<Rightarrow> dims list option" where
  "split_extents es [] = Some es"
| "split_extents es (s # rest) =
     do {
       e \<leftarrow> vec_at es (BlkLower s);
       let (lo, up) = cut (Dir s) (Index s) e;
       split_extents (es[nat (BlkLower s) := lo] @ [up]) rest
     }"

definition owns :: "dims \<Rightarrow> int \<Rightarrow> int \<Rightarrow> int \<Rightarrow> bool" where
  "owns e ii jj kk = (case e of ((li, lj, lk), (ui, uj, uk)) \<Rightarrow>
     li \<le> ii \<and> ii < ui \<and> lj \<le> jj \<and> jj < uj \<and> lk \<le> kk \<and> kk < uk)"

text \<open>The block that owns cell \<open>(ii, jj, kk)\<close> of recombined block \<open>blk\<close>, by search.\<close>

definition owner_blocks ::
  "procBlock list \<Rightarrow> decomposition \<Rightarrow> int \<Rightarrow> int \<Rightarrow> int \<Rightarrow> int \<Rightarrow> nat list option" where
  "owner_blocks vars decomp blk ii jj kk =
     map_option
       (\<lambda>es. filter (\<lambda>n. vec_at (parBlock decomp) (int n) = Some blk \<and> owns (es ! n) ii jj kk)
               [0..<length es])
       (split_extents (initial_blkDims vars) (splitHist decomp))"

subsection \<open>Concrete blocks and decompositions\<close>

text \<open>A block of the given size, without ghost cells, every field zero.\<close>

definition zero_vector3d :: vector3d where
  "zero_vector3d = \<lparr>X = 0, Y = 0, Z = 0\<rparr>"

definition zero_tensor :: tensor where
  "zero_tensor = \<lparr>XX = 0, XY = 0, XZ = 0, YX = 0, YY = 0, YZ = 0, ZX = 0, ZY = 0, ZZ = 0\<rparr>"

definition zero_primVars :: primVars where
  "zero_primVars = \<lparr>Rho = 0, U = 0, V = 0, W = 0, P = 0, Tke = 0, Omega = 0\<rparr>"

definition box :: "int \<Rightarrow> int \<Rightarrow> int \<Rightarrow> procBlock" where
  "box ni nj nk =
     \<lparr>NumI = ni, NumJ = nj, NumK = nk, NumGhosts = 0,
      State = (\<lambda>i j k. zero_primVars), Center = (\<lambda>i j k. zero_vector3d),
      Dt = (\<lambda>i j k. 0), Temperature = (\<lambda>i j k. 0), Rank = 0, GlobalPos = 0,
      IsTurbulent = False, EddyViscosity = (\<lambda>i j k. 0), Viscosity = (\<lambda>i j k. 0),
      WallDist = (\<lambda>i j k. 0), VelGrad = (\<lambda>i j k. zero_tensor),
      TempGrad = (\<lambda>i j k. zero_vector3d), TkeGrad = (\<lambda>i j k. zero_vector3d),
      OmegaGrad = (\<lambda>i j k. zero_vector3d), Residual = (\<lambda>i j k e. 0)\<rparr>"

text \<open>
  One block of ten cells along i is cut at index 6 into blocks 0 and 1; block 0, the lower
  child, now six cells long, is cut again at index 3 into blocks 0 and 2.
\<close>

definition twice_split :: decomposition where
  "twice_split =
     \<lparr>parBlock = [0, 0, 0],
      splitHist = [\<lparr>BlkLower = 0, BlkUpper = 1, Index = 6, Dir = ''i''\<rparr>,
                   \<lparr>BlkLower = 0, BlkUpper = 2, Index = 3, Dir = ''i''\<rparr>]\<rparr>"

subsection \<open>Split histories\<close>

text \<open>
  A history is recorded consistently, for a vector of \<open>n\<close> blocks before the first split
  of the list and the parent table \<open>pb\<close>, when every split appends its upper block to the
  vector, cuts a block that exists, and hands the parent of the lower block down to the
  upper block.
\<close>

fun history_ok :: "int list \<Rightarrow> nat \<Rightarrow> split list \<Rightarrow> bool" where
  "history_ok pb n [] = True"
| "history_ok pb n (s # rest) =
     (BlkUpper s = int n \<and> 0 \<le> BlkLower s \<and> BlkLower s < int n \<and> n < length pb \<and>
      pb ! n = pb ! nat (BlkLower s) \<and> history_ok pb (Suc n) rest)"

text \<open>A cell of a block, counted without ghost cells.\<close>

definition interior_cell :: "procBlock \<Rightarrow> int \<Rightarrow> int \<Rightarrow> int \<Rightarrow> bool" where
  "interior_cell b ii jj kk \<longleftrightarrow>
     0 \<le> ii \<and> ii < NumI b \<and> 0 \<le> jj \<and> jj < NumJ b \<and> 0 \<le> kk \<and> kk < NumK b"

text \<open>
  Two blocks, of ten cells and of ten by ten cells. The second is cut at i = 6 into blocks
  1 and 2; block 2, the upper child, is cut at j = 5 into blocks 2 and 3. Cell
  \<open>(7, 0, 0)\<close> of the second block lies within the index range of block 0 as well, which
  is not of its lineage.
\<close>

definition upper_split :: decomposition where
  "upper_split =
     \<lparr>parBlock = [0, 1, 1, 1],
      splitHist = [\<lparr>BlkLower = 1, BlkUpper = 2, Index = 6, Dir = ''i''\<rparr>,
                   \<lparr>BlkLower = 2, BlkUpper = 3, Index = 5, Dir = ''j''\<rparr>]\<rparr>"

subsection \<open>Recombine\<close>

text \<open>
  \<^verbatim>\<open>procBlock::Join\<close> is defined in procBlock.cpp, which is not among the sources, so it
  is a parameter: \<open>join lower upper dir\<close> is the block that \<open>lower\<close> has become after
  \<^verbatim>\<open>lower.Join(upper, dir, dumSurf)\<close>. The vector \<^verbatim>\<open>dumSurf\<close> that \<^verbatim>\<open>Join\<close> fills is
  not used by \<^verbatim>\<open>Recombine\<close>.

  The loop counts \<^verbatim>\<open>ii\<close> down from \<^verbatim>\<open>NumSplits() - 1\<close> to 0; in the equation for
  \<open>Suc n\<close> the loop variable \<^verbatim>\<open>ii\<close> is \<open>n\<close>. \<^verbatim>\<open>resize(size() - 1)\<close> drops the last
  block of the vector; the vector is not empty there, since two of its elements have just
  been read.
\<close>

primrec Recombine_loop ::
  "(procBlock \<Rightarrow> procBlock \<Rightarrow> string \<Rightarrow> procBlock) \<Rightarrow> decomposition \<Rightarrow> nat \<Rightarrow>
   procBlock list \<Rightarrow> procBlock list option" where
  "Recombine_loop join decomp 0 recombVars = Some recombVars"
| "Recombine_loop join decomp (Suc n) recombVars =
     do {
       lo \<leftarrow> SplitHistBlkLower decomp (int n);
       up \<leftarrow> SplitHistBlkUpper decomp (int n);
       dr \<leftarrow> SplitHistDir decomp (int n);
       lower \<leftarrow> vec_at recombVars lo;
       upper \<leftarrow> vec_at recombVars up;
       Recombine_loop join decomp n (butlast (recombVars[nat lo := join lower upper dr]))
     }"

definition Recombine ::
  "(procBlock \<Rightarrow> procBlock \<Rightarrow> string \<Rightarrow> procBlock) \<Rightarrow> procBlock list \<Rightarrow> decomposition \<Rightarrow>
   procBlock list option" where
  "Recombine join vars decomp = Recombine_loop join decomp (nat (NumSplits decomp)) vars"

text \<open>
  What the specification says one step of the recombination is: the lower child is fused
  with the upper child along the recorded axis, and the block vector shrinks by one.
\<close>

definition undo_split ::
  "(procBlock \<Rightarrow> procBlock \<Rightarrow> string \<Rightarrow> procBlock) \<Rightarrow> procBlock list \<Rightarrow> split \<Rightarrow>
   procBlock list" where
  "undo_split join bs s =
     butlast (bs[nat (BlkLower s) := join (bs ! nat (BlkLower s)) (bs ! nat (BlkUpper s)) (Dir s)])"

text \<open>Both blocks of a split are elements of a vector of \<open>n\<close> blocks.\<close>

definition split_in_range :: "split \<Rightarrow> nat \<Rightarrow> bool" where
  "split_in_range s n \<longleftrightarrow>
     0 \<le> BlkLower s \<and> BlkLower s < int n \<and> 0 \<le> BlkUpper s \<and> BlkUpper s < int n"

text \<open>A joining function that adds the sizes along the axis, for concrete runs.\<close>

definition join_sizes :: "procBlock \<Rightarrow> procBlock \<Rightarrow> string \<Rightarrow> procBlock" where
  "join_sizes a b d =
     (if d = ''i'' then a\<lparr>NumI := NumI a + NumI b\<rparr>
      else if d = ''j'' then a\<lparr>NumJ := NumJ a + NumJ b\<rparr>
      else a\<lparr>NumK := NumK a + NumK b\<rparr>)"

text \<open>
  Modelled from the spec: \<^verbatim>\<open>procBlock::Split\<close> is in procBlock.cpp, which is not among
  the sources, so it is a parameter too: \<open>cutb b dir ind\<close> is the pair of the lower and the
  upper part of block \<open>b\<close> cut along \<open>dir\<close> at \<open>ind\<close>. By section 4.7 a split replaces the
  block by its lower part and appends the upper part.
\<close>

definition apply_split ::
  "(procBlock \<Rightarrow> string \<Rightarrow> int \<Rightarrow> procBlock \<times> procBlock) \<Rightarrow> procBlock list \<Rightarrow> split \<Rightarrow>
   procBlock list" where
  "apply_split cutb bs s =
     bs[nat (BlkLower s) := fst (cutb (bs ! nat (BlkLower s)) (Dir s) (Index s))] @
     [snd (cutb (bs ! nat (BlkLower s)) (Dir s) (Index s))]"

text \<open>Every split of the list cuts a block that exists and appends its upper block.\<close>

fun splits_ok :: "nat \<Rightarrow> split list \<Rightarrow> bool" where
  "splits_ok n [] = True"
| "splits_ok n (s # rest) =
     (BlkUpper s = int n \<and> 0 \<le> BlkLower s \<and> BlkLower s < int n \<and> splits_ok (Suc n) rest)"

subsection \<open>The residual report\<close>

text \<open>
  Modelled from the spec: the macro \<^verbatim>\<open>NUMVARS\<close> is configured into macros.hpp, which is not
  among the sources. The state has seven equations (mass, three momentum, energy, and the
  two turbulence equations, section 3), and \<^verbatim>\<open>PrintResiduals\<close> reads the entries 0 to 6
  of a \<^verbatim>\<open>genArray\<close>.
\<close>

definition NUMVARS :: nat where
  "NUMVARS = 7"

text \<open>
  A \<^verbatim>\<open>genArray\<close> is an array of \<^verbatim>\<open>NUMVARS\<close> doubles: a function from the index, of
  which the routines only read and write the entries below \<^verbatim>\<open>NUMVARS\<close>.
\<close>

type_synonym genArray = "nat \<Rightarrow> real"

text \<open>
  Modelled from the spec: the arithmetic of \<^verbatim>\<open>genArray\<close> (genArray.hpp is not among the
  sources) is componentwise, as in \<open>(L2 + \<epsilon>) / (L2_ref + \<epsilon>)\<close> of section 6; adding a double
  adds it to every entry.
\<close>

definition genArray_add :: "genArray \<Rightarrow> real \<Rightarrow> genArray" where
  "genArray_add a e = (\<lambda>c. a c + e)"

definition genArray_div :: "genArray \<Rightarrow> genArray \<Rightarrow> genArray" where
  "genArray_div a b = (\<lambda>c. a c / b c)"

record resid =
  Linf :: real
  Block :: int
  ILoc :: int
  JLoc :: int
  KLoc :: int
  Eqn :: int

text \<open>
  The accessors of \<^verbatim>\<open>input\<close> that \<^verbatim>\<open>output.cpp\<close> calls. \<^verbatim>\<open>inp.Dt()\<close> and
  \<^verbatim>\<open>inp.IsTurbulent()\<close> are the fields \<open>InputDt\<close> and \<open>InputIsTurbulent\<close>, since a block
  has accessors of the same names. \<open>OutputVariables\<close> lists the names in the order in
  which a range-based loop visits them.
\<close>

record input =
  SimNameRoot :: string
  InputDt :: real
  CFL :: real
  InputIsTurbulent :: bool
  PRef :: real
  RRef :: real
  LRef :: real
  TRef :: real
  NumVarsOutput :: int
  OutputVariables :: "string list"
  OutputFrequency :: int

text \<open>
  What is sent to an \<^verbatim>\<open>ostream\<close>, one item per \<^verbatim>\<open><<\<close>: a string, an int, a double,
  or \<^verbatim>\<open>endl\<close>. Field widths, precision and the notation of the digits are not kept.
\<close>

datatype item = Text string | Integer int | Double real | Endl


text \<open>
  The normalization is determined first (lines 747 to 757): the reference
  \<^verbatim>\<open>residL2First\<close> is passed by reference and updated in place.
\<close>

definition reset_normalization :: "genArray \<Rightarrow> genArray \<Rightarrow> genArray" where
  "reset_normalization residL2 residL2First =
     fold (\<lambda>cc first. if residL2 cc > first cc then first(cc := residL2 cc) else first)
       [0..<NUMVARS] residL2First"

definition determine_normalization :: "genArray \<Rightarrow> genArray \<Rightarrow> int \<Rightarrow> int \<Rightarrow> genArray" where
  "determine_normalization residL2First residL2 nn mm =
     (if nn = 0 \<and> mm = 0 then residL2
      else if nn < 5 \<and> mm = 0 then reset_normalization residL2 residL2First
      else residL2First)"

text \<open>Line 760; \<open>eps\<close> is the macro \<^verbatim>\<open>EPS\<close> of macros.hpp.\<close>

definition resNormL2 :: "real \<Rightarrow> genArray \<Rightarrow> genArray \<Rightarrow> genArray" where
  "resNormL2 eps residL2 residL2First =
     genArray_div (genArray_add residL2 eps) (genArray_add residL2First eps)"

text \<open>Lines 762 to 781: the row that is printed.\<close>

definition residual_row :: "input \<Rightarrow> int \<Rightarrow> int \<Rightarrow> genArray \<Rightarrow> resid \<Rightarrow> real \<Rightarrow> item list" where
  "residual_row inp nn mm nrm residLinf matrixResid =
     [Integer nn, Integer mm] @
     (if InputDt inp > 0 then [Double (InputDt inp)]
      else if CFL inp > 0 then [Double (CFL inp)] else []) @
     [Double (nrm 0), Double (nrm 1), Double (nrm 2), Double (nrm 3), Double (nrm 4)] @
     (if InputIsTurbulent inp then [Double (nrm 5), Double (nrm 6)] else []) @
     [Integer (Eqn residLinf), Integer (Block residLinf), Integer (ILoc residLinf), Integer (JLoc residLinf),
      Integer (KLoc residLinf), Double (Linf residLinf), Double matrixResid, Endl]"

text \<open>
  \<^verbatim>\<open>PrintResiduals\<close> returns the updated reference and what it has sent to the stream.
\<close>

definition PrintResiduals ::
  "input \<Rightarrow> real \<Rightarrow> genArray \<Rightarrow> genArray \<Rightarrow> resid \<Rightarrow> real \<Rightarrow> int \<Rightarrow> int \<Rightarrow>
   genArray \<times> item list" where
  "PrintResiduals inp eps residL2First residL2 residLinf matrixResid nn mm =
     (let first = determine_normalization residL2First residL2 nn mm;
          nrm = resNormL2 eps residL2 first
      in (first, residual_row inp nn mm nrm residLinf matrixResid))"








text \<open>An input deck and a residual locator for concrete runs.\<close>

definition example_input :: input where
  "example_input =
     \<lparr>SimNameRoot = ''sim'', InputDt = 0, CFL = 2, InputIsTurbulent = True,
      PRef = 1, RRef = 1, LRef = 2, TRef = 1, NumVarsOutput = 1,
      OutputVariables = [''dt''], OutputFrequency = 1\<rparr>"

definition example_resid :: resid where
  "example_resid = \<lparr>Linf = 0, Block = 0, ILoc = 0, JLoc = 0, KLoc = 0, Eqn = 0\<rparr>"

subsection \<open>Files, strings and the end of the program\<close>

text \<open>
  A file is the list of what has been written to it. A binary file is given, by
  \<^verbatim>\<open>outFile.write\<close>, an \<^verbatim>\<open>int\<close> (written with \<^verbatim>\<open>sizeof(int)\<close> bytes, four on the
  platforms the solver is built for) or a \<^verbatim>\<open>double\<close> (eight bytes); a text file is given,
  by \<^verbatim>\<open><<\<close>, a piece of text.
\<close>

datatype token = WriteInt int | WriteDouble real | WriteText string

text \<open>
  How a routine ends: it returns, with its result; or it calls \<^verbatim>\<open>exit\<close> with a code,
  after sending a text to \<^verbatim>\<open>cerr\<close>, the binary file holding what has been written to it by
  then; or it reads a vector outside its range, after which nothing is known.
\<close>

datatype 'a process = Finished 'a | Exit int string "token list" | Undefined_behaviour

text \<open>\<^verbatim>\<open>EXIT_FAILURE\<close> is a macro of the C library; it is 1 on the platforms in question.\<close>

definition EXIT_FAILURE :: int where
  "EXIT_FAILURE = 1"

definition endl :: string where
  "endl = [CHR 0x0A]"

text \<open>\<^verbatim>\<open>std::to_string\<close> of an \<^verbatim>\<open>int\<close>: decimal digits, and a minus sign if negative.\<close>

fun digits :: "nat \<Rightarrow> string" where
  "digits n = (if n < 10 then [''0123456789'' ! n]
               else digits (n div 10) @ [''0123456789'' ! (n mod 10)])"

declare digits.simps [simp del]

definition to_string :: "int \<Rightarrow> string" where
  "to_string i = (if i < 0 then ''-'' @ digits (nat (- i)) else digits (nat i))"

text \<open>\<^verbatim>\<open>var.find(pat) != string::npos\<close>: the pattern occurs somewhere in the string.\<close>

fun found :: "string \<Rightarrow> string \<Rightarrow> bool" where
  "found [] pat = (pat = [])"
| "found (c # cs) pat = (take (length pat) (c # cs) = pat \<or> found cs pat)"

record idealGas =
  SoS :: "real \<Rightarrow> real \<Rightarrow> real"

record sutherland =
  MuRef :: real

subsection \<open>WriteFun\<close>

text \<open>
  The scratch array \<^verbatim>\<open>dumArr\<close> of a block, indexed by cell without ghost cells. What a
  cell holds is computed by an expression that may read a vector outside its range
  (\<open>None\<close>).
\<close>

type_synonym dumArr = "int \<times> int \<times> int \<Rightarrow> real"

type_synonym cell = "int \<Rightarrow> int \<Rightarrow> int \<Rightarrow> real option"

text \<open>
  The chain of comparisons of lines 173 to 553, in the order of the source. Every branch
  runs the same three loops over the cells of the block and differs in the expression
  that is stored, so a branch is given by that expression, as a function of the indices
  \<open>ip\<close>, \<open>jp\<close>, \<open>kp\<close> into \<^verbatim>\<open>dumArr\<close>. Where the source runs a second counter
  \<^verbatim>\<open>ig = NumGhosts() + ip\<close> beside \<^verbatim>\<open>ip\<close>, the expression reads the block at the index with
  the ghost layers added. The last branch, for a name that is none of these, is \<open>None\<close>.
\<close>

definition nondimensional ::
  "procBlock list \<Rightarrow> procBlock list \<Rightarrow> decomposition \<Rightarrow> idealGas \<Rightarrow> nat \<Rightarrow> string \<Rightarrow>
   cell option" where
  "nondimensional vars recombVars decomp eqnState ll var =
    (let b = recombVars ! ll; g = NumGhosts b in
     if var = ''density'' then
       Some (\<lambda>ip jp kp. Some (Rho (State b (g + ip) (g + jp) (g + kp))))
     else if var = ''vel_x'' then
       Some (\<lambda>ip jp kp. Some (U (State b (g + ip) (g + jp) (g + kp))))
     else if var = ''vel_y'' then
       Some (\<lambda>ip jp kp. Some (V (State b (g + ip) (g + jp) (g + kp))))
     else if var = ''vel_z'' then
       Some (\<lambda>ip jp kp. Some (W (State b (g + ip) (g + jp) (g + kp))))
     else if var = ''pressure'' then
       Some (\<lambda>ip jp kp. Some (P (State b (g + ip) (g + jp) (g + kp))))
     else if var = ''mach'' then
       Some (\<lambda>ip jp kp.
         let vel = Velocity (State b (g + ip) (g + jp) (g + kp)) in
         Some (Mag vel / SoS eqnState (P (State b (g + ip) (g + jp) (g + kp)))
                                      (Rho (State b (g + ip) (g + jp) (g + kp)))))
     else if var = ''sos'' then
       Some (\<lambda>ip jp kp. Some (SoS eqnState (P (State b (g + ip) (g + jp) (g + kp)))
                                             (Rho (State b (g + ip) (g + jp) (g + kp)))))
     else if var = ''dt'' then
       Some (\<lambda>ii jj kk. Some (Dt b ii jj kk))
     else if var = ''temperature'' then
       Some (\<lambda>ip jp kp. Some (Temperature b (g + ip) (g + jp) (g + kp)))
     else if var = ''rank'' then
       Some (\<lambda>ii jj kk. do {
         n \<leftarrow> SplitBlockNumber recombVars decomp (int ll) ii jj kk;
         blk \<leftarrow> vec_at vars n;
         Some (of_int (Rank blk)) })
     else if var = ''globalPosition'' then
       Some (\<lambda>ii jj kk. do {
         n \<leftarrow> SplitBlockNumber recombVars decomp (int ll) ii jj kk;
         blk \<leftarrow> vec_at vars n;
         Some (of_int (GlobalPos blk)) })
     else if var = ''viscosityRatio'' then
       Some (\<lambda>ip jp kp. Some (if IsTurbulent b
                                then EddyViscosity b (g + ip) (g + jp) (g + kp) /
                                     Viscosity b (g + ip) (g + jp) (g + kp)
                                else 0))
     else if var = ''tke'' then
       Some (\<lambda>ip jp kp. Some (Tke (State b (g + ip) (g + jp) (g + kp))))
     else if var = ''sdr'' then
       Some (\<lambda>ip jp kp. Some (Omega (State b (g + ip) (g + jp) (g + kp))))
     else if var = ''wallDistance'' then
       Some (\<lambda>ip jp kp. Some (WallDist b (g + ip) (g + jp) (g + kp)))
     else if var = ''velGrad_ux'' then Some (\<lambda>ii jj kk. Some (XX (VelGrad b ii jj kk)))
     else if var = ''velGrad_vx'' then Some (\<lambda>ii jj kk. Some (XY (VelGrad b ii jj kk)))
     else if var = ''velGrad_wx'' then Some (\<lambda>ii jj kk. Some (XZ (VelGrad b ii jj kk)))
     else if var = ''velGrad_uy'' then Some (\<lambda>ii jj kk. Some (YX (VelGrad b ii jj kk)))
     else if var = ''velGrad_vy'' then Some (\<lambda>ii jj kk. Some (YY (VelGrad b ii jj kk)))
     else if var = ''velGrad_wy'' then Some (\<lambda>ii jj kk. Some (YZ (VelGrad b ii jj kk)))
     else if var = ''velGrad_uz'' then Some (\<lambda>ii jj kk. Some (ZX (VelGrad b ii jj kk)))
     else if var = ''velGrad_vz'' then Some (\<lambda>ii jj kk. Some (ZY (VelGrad b ii jj kk)))
     else if var = ''velGrad_wz'' then Some (\<lambda>ii jj kk. Some (ZZ (VelGrad b ii jj kk)))
     else if var = ''tempGrad_x'' then Some (\<lambda>ii jj kk. Some (X (TempGrad b ii jj kk)))
     else if var = ''tempGrad_y'' then Some (\<lambda>ii jj kk. Some (Y (TempGrad b ii jj kk)))
     else if var = ''tempGrad_z'' then Some (\<lambda>ii jj kk. Some (Z (TempGrad b ii jj kk)))
     else if var = ''tkeGrad_x'' then Some (\<lambda>ii jj kk. Some (X (TkeGrad b ii jj kk)))
     else if var = ''tkeGrad_y'' then Some (\<lambda>ii jj kk. Some (Y (TkeGrad b ii jj kk)))
     else if var = ''tkeGrad_z'' then Some (\<lambda>ii jj kk. Some (Z (TkeGrad b ii jj kk)))
     else if var = ''sdrGrad_x'' then Some (\<lambda>ii jj kk. Some (X (OmegaGrad b ii jj kk)))
     else if var = ''sdrGrad_y'' then Some (\<lambda>ii jj kk. Some (Y (OmegaGrad b ii jj kk)))
     else if var = ''sdrGrad_z'' then Some (\<lambda>ii jj kk. Some (Z (OmegaGrad b ii jj kk)))
     else if var = ''resid_mass'' then Some (\<lambda>ii jj kk. Some (Residual b ii jj kk 0))
     else if var = ''resid_mom_x'' then Some (\<lambda>ii jj kk. Some (Residual b ii jj kk 1))
     else if var = ''resid_mom_y'' then Some (\<lambda>ii jj kk. Some (Residual b ii jj kk 2))
     else if var = ''resid_mom_z'' then Some (\<lambda>ii jj kk. Some (Residual b ii jj kk 3))
     else if var = ''resid_energy'' then Some (\<lambda>ii jj kk. Some (Residual b ii jj kk 4))
     else if var = ''resid_tke'' then Some (\<lambda>ii jj kk. Some (Residual b ii jj kk 5))
     else if var = ''resid_sdr'' then Some (\<lambda>ii jj kk. Some (Residual b ii jj kk 6))
     else None)"

text \<open>A counted loop whose body may fail.\<close>

fun for_each :: "nat list \<Rightarrow> (nat \<Rightarrow> 's \<Rightarrow> 's option) \<Rightarrow> 's \<Rightarrow> 's option" where
  "for_each [] body s = Some s"
| "for_each (x # xs) body s = (case body x s of None \<Rightarrow> None | Some s' \<Rightarrow> for_each xs body s')"

text \<open>The three loops of a branch: k is the outer loop and i the inner loop.\<close>

definition fill_dumArr :: "procBlock \<Rightarrow> cell \<Rightarrow> dumArr \<Rightarrow> dumArr option" where
  "fill_dumArr b c dumArr =
     for_each [0..<nat (NumK b)] (\<lambda>kp.
       for_each [0..<nat (NumJ b)] (\<lambda>jp.
         for_each [0..<nat (NumI b)] (\<lambda>ip arr.
           map_option (\<lambda>v. arr((int ip, int jp, int kp) := v))
             (c (int ip) (int jp) (int kp))))) dumArr"

text \<open>The scale factors of lines 561 to 606; \<^verbatim>\<open>pow(refSoS, 3.0)\<close> is the third power.\<close>

definition dimensionalize :: "input \<Rightarrow> real \<Rightarrow> sutherland \<Rightarrow> string \<Rightarrow> real \<Rightarrow> real" where
  "dimensionalize inp refSoS suth var dumDouble =
    (if var = ''density'' then dumDouble * RRef inp
     else if var = ''vel_x'' then dumDouble * refSoS
     else if var = ''vel_y'' then dumDouble * refSoS
     else if var = ''vel_z'' then dumDouble * refSoS
     else if var = ''pressure'' then dumDouble * (RRef inp * refSoS * refSoS)
     else if var = ''sos'' then dumDouble * refSoS
     else if var = ''dt'' then dumDouble / (refSoS * LRef inp)
     else if var = ''temperature'' then dumDouble * TRef inp
     else if var = ''tke'' then dumDouble * (refSoS * refSoS)
     else if var = ''sdr'' then dumDouble * (refSoS * refSoS * RRef inp / MuRef suth)
     else if var = ''wallDistance'' then dumDouble * LRef inp
     else if found var ''velGrad_'' then dumDouble * (refSoS / LRef inp)
     else if found var ''tempGrad_'' then dumDouble * (TRef inp / LRef inp)
     else if found var ''tkeGrad_'' then dumDouble * (refSoS * refSoS / LRef inp)
     else if found var ''sdrGrad_'' then
       dumDouble * (refSoS * refSoS * RRef inp / (MuRef suth * LRef inp))
     else if var = ''resid_mass'' then dumDouble * (RRef inp * refSoS * LRef inp * LRef inp)
     else if found var ''resid_mom_'' then
       dumDouble * (RRef inp * refSoS * refSoS * LRef inp * LRef inp)
     else if var = ''resid_energy'' then
       dumDouble * (RRef inp * refSoS ^ 3 * LRef inp * LRef inp)
     else if var = ''resid_tke'' then
       dumDouble * (RRef inp * refSoS ^ 3 * LRef inp * LRef inp)
     else if var = ''resid_sdr'' then
       dumDouble * (RRef inp * RRef inp * refSoS ^ 4 * LRef inp * LRef inp / MuRef suth)
     else dumDouble)"

text \<open>Lines 555 to 612: the dimensional values of the block are written.\<close>

definition write_dimensional ::
  "input \<Rightarrow> real \<Rightarrow> sutherland \<Rightarrow> procBlock \<Rightarrow> string \<Rightarrow> dumArr \<Rightarrow> token list \<Rightarrow> token list" where
  "write_dimensional inp refSoS suth b var dumArr outFile =
     fold (\<lambda>kk. fold (\<lambda>jj. fold (\<lambda>ii out.
         out @ [WriteDouble (dimensionalize inp refSoS suth var (dumArr (int ii, int jj, int kk)))])
       [0..<nat (NumI b)]) [0..<nat (NumJ b)]) [0..<nat (NumK b)] outFile"

definition unknown_variable :: "string \<Rightarrow> string" where
  "unknown_variable var =
     ''ERROR: Variable '' @ var @ '' to write to function file is not defined!'' @ endl"

text \<open>The body of the loop over the output variables, for block \<open>ll\<close>.\<close>

definition write_variable ::
  "procBlock list \<Rightarrow> procBlock list \<Rightarrow> decomposition \<Rightarrow> idealGas \<Rightarrow> sutherland \<Rightarrow> input \<Rightarrow>
   real \<Rightarrow> nat \<Rightarrow> string \<Rightarrow> dumArr \<times> token list \<Rightarrow> (dumArr \<times> token list) process" where
  "write_variable vars recombVars decomp eqnState suth inp refSoS ll var st =
     (case st of (dumArr, outFile) \<Rightarrow>
        (case nondimensional vars recombVars decomp eqnState ll var of
           None \<Rightarrow> Exit EXIT_FAILURE (unknown_variable var) outFile
         | Some c \<Rightarrow>
             (case fill_dumArr (recombVars ! ll) c dumArr of
                None \<Rightarrow> Undefined_behaviour
              | Some dumArr' \<Rightarrow>
                  Finished (dumArr',
                    write_dimensional inp refSoS suth (recombVars ! ll) var dumArr' outFile))))"

fun write_variables ::
  "procBlock list \<Rightarrow> procBlock list \<Rightarrow> decomposition \<Rightarrow> idealGas \<Rightarrow> sutherland \<Rightarrow> input \<Rightarrow>
   real \<Rightarrow> nat \<Rightarrow> string list \<Rightarrow> dumArr \<times> token list \<Rightarrow> (dumArr \<times> token list) process" where
  "write_variables vars recombVars decomp eqnState suth inp refSoS ll [] st = Finished st"
| "write_variables vars recombVars decomp eqnState suth inp refSoS ll (var # rest) st =
     (case write_variable vars recombVars decomp eqnState suth inp refSoS ll var st of
        Finished st' \<Rightarrow>
          write_variables vars recombVars decomp eqnState suth inp refSoS ll rest st'
      | Exit code msg written \<Rightarrow> Exit code msg written
      | Undefined_behaviour \<Rightarrow> Undefined_behaviour)"

text \<open>
  The loop over the blocks of lines 165 to 614. A fresh \<^verbatim>\<open>dumArr\<close> is declared for every
  block; its initial contents are never read, and are taken to be zero.
\<close>

fun write_blocks ::
  "procBlock list \<Rightarrow> procBlock list \<Rightarrow> decomposition \<Rightarrow> idealGas \<Rightarrow> sutherland \<Rightarrow> input \<Rightarrow>
   real \<Rightarrow> nat list \<Rightarrow> token list \<Rightarrow> token list process" where
  "write_blocks vars recombVars decomp eqnState suth inp refSoS [] outFile = Finished outFile"
| "write_blocks vars recombVars decomp eqnState suth inp refSoS (ll # rest) outFile =
     (case write_variables vars recombVars decomp eqnState suth inp refSoS ll
             (OutputVariables inp) (\<lambda>c. 0, outFile) of
        Finished (dumArr, outFile') \<Rightarrow>
          write_blocks vars recombVars decomp eqnState suth inp refSoS rest outFile'
      | Exit code msg written \<Rightarrow> Exit code msg written
      | Undefined_behaviour \<Rightarrow> Undefined_behaviour)"

text \<open>Lines 152 to 162: the sizes of every block and the number of variables.\<close>

definition write_sizes :: "procBlock list \<Rightarrow> int \<Rightarrow> token list \<Rightarrow> token list" where
  "write_sizes recombVars numVars outFile =
     fold (\<lambda>ll out. out @ [WriteInt (NumI (recombVars ! ll)), WriteInt (NumJ (recombVars ! ll)),
                           WriteInt (NumK (recombVars ! ll)), WriteInt numVars])
       [0..<length recombVars] outFile"

definition function_file_name :: "input \<Rightarrow> int \<Rightarrow> string" where
  "function_file_name inp solIter =
     SimNameRoot inp @ ''_'' @ to_string solIter @ ''_center'' @ ''.fun''"

definition function_file_error :: "string \<Rightarrow> string" where
  "function_file_error writeName =
     ''ERROR: Function file '' @ writeName @ '' did not open correctly!!!'' @ endl"

text \<open>
  \<^verbatim>\<open>WriteFun\<close>. \<open>opens\<close> tells of a file name whether a stream to it opens, that is,
  whether \<^verbatim>\<open>outFile.fail()\<close> is false after the constructor. The parameter \<^verbatim>\<open>turb\<close> of
  the source is not used in its body and is left out.
\<close>

definition WriteFun ::
  "(procBlock \<Rightarrow> procBlock \<Rightarrow> string \<Rightarrow> procBlock) \<Rightarrow> (string \<Rightarrow> bool) \<Rightarrow> procBlock list \<Rightarrow>
   idealGas \<Rightarrow> sutherland \<Rightarrow> int \<Rightarrow> decomposition \<Rightarrow> input \<Rightarrow> token list process" where
  "WriteFun join opens vars eqnState suth solIter decomp inp =
     (let refSoS = SoS eqnState (PRef inp) (RRef inp) in
      case Recombine join vars decomp of
        None \<Rightarrow> Undefined_behaviour
      | Some recombVars \<Rightarrow>
          let writeName = function_file_name inp solIter in
          if \<not> opens writeName then Exit EXIT_FAILURE (function_file_error writeName) []
          else
            let numBlks = int (length recombVars);
                outFile = [WriteInt numBlks];
                numVars = NumVarsOutput inp;
                outFile = write_sizes recombVars numVars outFile
            in write_blocks vars recombVars decomp eqnState suth inp refSoS
                 [0..<nat numBlks] outFile)"

text \<open>
  The names that the chain of comparisons knows, in its order.
\<close>

definition recognized :: "string list" where
  "recognized =
     [''density'', ''vel_x'', ''vel_y'', ''vel_z'', ''pressure'', ''mach'', ''sos'', ''dt'',
      ''temperature'', ''rank'', ''globalPosition'', ''viscosityRatio'', ''tke'', ''sdr'',
      ''wallDistance'', ''velGrad_ux'', ''velGrad_vx'', ''velGrad_wx'', ''velGrad_uy'',
      ''velGrad_vy'', ''velGrad_wy'', ''velGrad_uz'', ''velGrad_vz'', ''velGrad_wz'',
      ''tempGrad_x'', ''tempGrad_y'', ''tempGrad_z'', ''tkeGrad_x'', ''tkeGrad_y'',
      ''tkeGrad_z'', ''sdrGrad_x'', ''sdrGrad_y'', ''sdrGrad_z'', ''resid_mass'',
      ''resid_mom_x'', ''resid_mom_y'', ''resid_mom_z'', ''resid_energy'', ''resid_tke'',
      ''resid_sdr'']"

text \<open>
  An expression is defined on a block when it can be computed for every cell; a variable
  can be written for block \<open>ll\<close> when its name is known and its expression is defined on
  the block. Only the expressions of \<^verbatim>\<open>rank\<close> and \<^verbatim>\<open>globalPosition\<close> can be undefined.
\<close>

definition cells_defined :: "procBlock \<Rightarrow> cell \<Rightarrow> bool" where
  "cells_defined b c =
     list_all (\<lambda>kp. list_all (\<lambda>jp. list_all (\<lambda>ip. c (int ip) (int jp) (int kp) \<noteq> None)
       [0..<nat (NumI b)]) [0..<nat (NumJ b)]) [0..<nat (NumK b)]"

definition writable ::
  "procBlock list \<Rightarrow> procBlock list \<Rightarrow> decomposition \<Rightarrow> idealGas \<Rightarrow> nat \<Rightarrow> string \<Rightarrow> bool" where
  "writable vars recombVars decomp eqnState ll var =
     (case nondimensional vars recombVars decomp eqnState ll var of
        None \<Rightarrow> False
      | Some c \<Rightarrow> cells_defined (recombVars ! ll) c)"

text \<open>
  The layout of the function file as the specification has it. \<open>cells b f\<close> lists \<open>f\<close>
  over the cells of the block, without ghost cells, i running fastest and k slowest;
  \<open>interior b ii jj kk\<close> is the state of that cell, which the block stores behind its ghost
  layers. The values of one variable on one block are one double per cell, the dimensional
  value at the cell.
\<close>

definition cells :: "procBlock \<Rightarrow> (nat \<Rightarrow> nat \<Rightarrow> nat \<Rightarrow> 'a) \<Rightarrow> 'a list" where
  "cells b f =
     concat (map (\<lambda>kk. concat (map (\<lambda>jj. map (\<lambda>ii. f ii jj kk)
       [0..<nat (NumI b)]) [0..<nat (NumJ b)])) [0..<nat (NumK b)])"

definition interior :: "procBlock \<Rightarrow> nat \<Rightarrow> nat \<Rightarrow> nat \<Rightarrow> primVars" where
  "interior b ii jj kk =
     State b (NumGhosts b + int ii) (NumGhosts b + int jj) (NumGhosts b + int kk)"

definition variable_values ::
  "input \<Rightarrow> real \<Rightarrow> sutherland \<Rightarrow> procBlock \<Rightarrow> string \<Rightarrow> cell \<Rightarrow> token list" where
  "variable_values inp refSoS suth b var c =
     cells b (\<lambda>ii jj kk.
       WriteDouble (dimensionalize inp refSoS suth var (the (c (int ii) (int jj) (int kk)))))"

definition block_values ::
  "procBlock list \<Rightarrow> procBlock list \<Rightarrow> decomposition \<Rightarrow> idealGas \<Rightarrow> sutherland \<Rightarrow> input \<Rightarrow>
   nat \<Rightarrow> string \<Rightarrow> token list" where
  "block_values vars recombVars decomp eqnState suth inp ll var =
     variable_values inp (SoS eqnState (PRef inp) (RRef inp)) suth (recombVars ! ll) var
       (the (nondimensional vars recombVars decomp eqnState ll var))"

definition block_sizes :: "input \<Rightarrow> procBlock \<Rightarrow> token list" where
  "block_sizes inp b =
     [WriteInt (NumI b), WriteInt (NumJ b), WriteInt (NumK b), WriteInt (NumVarsOutput inp)]"

definition function_file ::
  "procBlock list \<Rightarrow> procBlock list \<Rightarrow> decomposition \<Rightarrow> idealGas \<Rightarrow> sutherland \<Rightarrow> input \<Rightarrow>
   token list" where
  "function_file vars recombVars decomp eqnState suth inp =
     [WriteInt (int (length recombVars))] @
     concat (map (block_sizes inp) recombVars) @
     concat (map (\<lambda>ll. concat (map (block_values vars recombVars decomp eqnState suth inp ll)
                                  (OutputVariables inp)))
               [0..<length recombVars])"

text \<open>A gas, a viscosity law and a decomposition for concrete runs.\<close>

definition unit_gas :: idealGas where
  "unit_gas = \<lparr>SoS = (\<lambda>p r. 1)\<rparr>"

definition unit_suth :: sutherland where
  "unit_suth = \<lparr>MuRef = 1\<rparr>"

definition no_splits :: decomposition where
  "no_splits = \<lparr>parBlock = [0], splitHist = []\<rparr>"

text \<open>One cell, whose time step is 1.\<close>

definition unit_cell :: procBlock where
  "unit_cell = (box 1 1 1)\<lparr>Dt := (\<lambda>i j k. 1)\<rparr>"

text \<open>
  Two by two cells in one layer, behind one layer of ghost cells; the density and the time
  step tell the cells apart. An input deck that asks for both.
\<close>

definition ramp :: procBlock where
  "ramp = (box 2 2 1)
     \<lparr>NumGhosts := 1,
      State := (\<lambda>i j k. zero_primVars\<lparr>Rho := of_int (i + 10 * j)\<rparr>),
      Dt := (\<lambda>i j k. of_int (i + 10 * j))\<rparr>"

definition two_variables :: input where
  "two_variables = example_input\<lparr>NumVarsOutput := 2, OutputVariables := [''density'', ''dt'']\<rparr>"

text \<open>An input deck with a name that the chain of comparisons does not know.\<close>

definition bogus_variable :: input where
  "bogus_variable =
     example_input\<lparr>NumVarsOutput := 3, OutputVariables := [''dt'', ''bogus'', ''density'']\<rparr>"

text \<open>
  One cell that moves with velocity \<open>(3, 4, 0)\<close> in a gas whose speed of sound is 2, and an
  input deck that asks for the time step and the Mach number.
\<close>

definition moving_cell :: procBlock where
  "moving_cell = unit_cell\<lparr>State := (\<lambda>i j k. zero_primVars\<lparr>Rho := 1, U := 3, V := 4, P := 1\<rparr>)\<rparr>"

definition sound_two :: idealGas where
  "sound_two = \<lparr>SoS = (\<lambda>p r. 2)\<rparr>"

definition mach_and_dt :: input where
  "mach_and_dt = example_input\<lparr>NumVarsOutput := 2, OutputVariables := [''dt'', ''mach'']\<rparr>"

text \<open>
  A cell of a block that is not turbulent and a cell of one that is, with eddy viscosity 6
  and viscosity 3, and an input deck that asks for the time step and the viscosity ratio.
\<close>

definition laminar_cell :: procBlock where
  "laminar_cell = (box 1 1 1)\<lparr>EddyViscosity := (\<lambda>i j k. 5), Viscosity := (\<lambda>i j k. 3)\<rparr>"

definition turbulent_cell :: procBlock where
  "turbulent_cell =
     (box 1 1 1)\<lparr>IsTurbulent := True, EddyViscosity := (\<lambda>i j k. 6), Viscosity := (\<lambda>i j k. 3)\<rparr>"

definition ratio_and_dt :: input where
  "ratio_and_dt =
     example_input\<lparr>NumVarsOutput := 2, OutputVariables := [''dt'', ''viscosityRatio'']\<rparr>"

subsection \<open>WriteCellCenter\<close>

text \<open>
  Modelled from the spec: the operators of \<^verbatim>\<open>vector3d\<close> (vector3d.hpp is not among the
  sources). Multiplying by a double scales the three components, and indexing with 0, 1, 2
  selects x, y, z.
\<close>

definition vector3d_scale :: "vector3d \<Rightarrow> real \<Rightarrow> vector3d" where
  "vector3d_scale v a = \<lparr>X = X v * a, Y = Y v * a, Z = Z v * a\<rparr>"

definition vector3d_index :: "vector3d \<Rightarrow> nat \<Rightarrow> real" where
  "vector3d_index v nn = (if nn = 0 then X v else if nn = 1 then Y v else Z v)"

definition cell_center_file_name :: "string \<Rightarrow> string" where
  "cell_center_file_name gridName = gridName @ ''_center'' @ ''.xyz''"

definition grid_file_error :: "string \<Rightarrow> string" where
  "grid_file_error writeName =
     ''ERROR: Grid file '' @ writeName @ '' did not open correctly!!!'' @ endl"

text \<open>
  Lines 89 to 114: for every block all x, then all y, then all z coordinates. The parameter
  \<^verbatim>\<open>LRef\<close> of the source is \<open>refLength\<close> here.
\<close>

definition write_centers :: "procBlock \<Rightarrow> real \<Rightarrow> token list \<Rightarrow> token list" where
  "write_centers b refLength outFile =
     (let maxi = NumI b; maxj = NumJ b; maxk = NumK b in
      fold (\<lambda>nn.
        fold (\<lambda>kk.
          fold (\<lambda>jj.
            fold (\<lambda>ii out.
              let dumVec = vector3d_scale (Center b ii jj kk) refLength;
                  dumDouble = vector3d_index dumVec nn
              in out @ [WriteDouble dumDouble])
            [NumGhosts b..maxi + NumGhosts b - 1])
          [NumGhosts b..maxj + NumGhosts b - 1])
        [NumGhosts b..maxk + NumGhosts b - 1])
      [0..<3] outFile)"

definition WriteCellCenter ::
  "(procBlock \<Rightarrow> procBlock \<Rightarrow> string \<Rightarrow> procBlock) \<Rightarrow> (string \<Rightarrow> bool) \<Rightarrow> string \<Rightarrow>
   procBlock list \<Rightarrow> decomposition \<Rightarrow> real \<Rightarrow> token list process" where
  "WriteCellCenter join opens gridName vars decomp refLength =
     (case Recombine join vars decomp of
        None \<Rightarrow> Undefined_behaviour
      | Some recombVars \<Rightarrow>
          let writeName = cell_center_file_name gridName in
          if \<not> opens writeName then Exit EXIT_FAILURE (grid_file_error writeName) []
          else
            let numBlks = int (length recombVars);
                outFile = [WriteInt numBlks];
                outFile = fold (\<lambda>ll out. out @ [WriteInt (NumI (recombVars ! ll)),
                                                  WriteInt (NumJ (recombVars ! ll)),
                                                  WriteInt (NumK (recombVars ! ll))])
                            [0..<nat numBlks] outFile;
                outFile = fold (\<lambda>ll. write_centers (recombVars ! ll) refLength)
                            [0..<nat numBlks] outFile
            in Finished outFile)"

subsection \<open>WriteRes\<close>

text \<open>
  The division of two \<^verbatim>\<open>int\<close>s in C++ truncates towards zero; by zero, and of the least
  \<^verbatim>\<open>int\<close> by -1, it is undefined. The iteration number and the output frequency are set by
  the user, so the sums of \<^verbatim>\<open>WriteRes\<close> can leave the 32-bit range: the compiled program
  wraps them modulo \<open>2 ^ 32\<close>, and \<open>int32\<close> does the same here.
  An \<^verbatim>\<open>int\<close> sent to the stream after \<^verbatim>\<open>setfill('0')\<close> and \<^verbatim>\<open>setw(4)\<close> is padded on
  the left with zeros to four characters.
\<close>

definition int32 :: "int \<Rightarrow> int" where
  "int32 x = (x + 2 ^ 31) mod 2 ^ 32 - 2 ^ 31"

definition truncated_div :: "int \<Rightarrow> int \<Rightarrow> int" where
  "truncated_div a b =
     (if (a < 0) = (b < 0) then \<bar>a\<bar> div \<bar>b\<bar> else - (\<bar>a\<bar> div \<bar>b\<bar>))"

definition setw4 :: "int \<Rightarrow> string" where
  "setw4 n = replicate (4 - length (to_string n)) CHR ''0'' @ to_string n"

definition results_file_name :: "input \<Rightarrow> string" where
  "results_file_name inp = SimNameRoot inp @ ''_center'' @ ''.res''"

definition results_file_error :: "string \<Rightarrow> string" where
  "results_file_error resName =
     ''ERROR: Results file '' @ resName @ '' did not open correctly!!!'' @ endl"

text \<open>Lines 655 to 665: the solution times, with a line break before every tenth.\<close>

definition write_times :: "int \<Rightarrow> int \<Rightarrow> token list \<Rightarrow> token list" where
  "write_times numTime outFreq resFile =
     snd (snd (fold (\<lambda>ii (solTime, count, out).
        let solTime = int32 (solTime + outFreq);
            out = (if count mod 10 = 0 then out @ [WriteText endl] else out);
            out = out @ [WriteText (to_string solTime), WriteText ''   '']
        in (solTime, int32 (count + 1), out))
       [0..<nat numTime] (0 :: int, 1 :: int, resFile)))"

text \<open>
  Lines 671 to 685: one line per scalar variable; the positions of the three velocity
  components are kept in \<^verbatim>\<open>vectorIndices\<close>.
\<close>

definition write_scalars ::
  "string \<Rightarrow> string list \<Rightarrow> token list \<Rightarrow> (int \<times> int \<times> int) \<times> token list" where
  "write_scalars writeName outputVars resFile =
     (case fold (\<lambda>var ((x, y, z), nvar, out).
             let out = out @ [WriteText writeName, WriteText '' F '', WriteText (setw4 nvar),
                              WriteText '' '', WriteText var, WriteText [CHR 0x0A]];
                 vectorIndices = (if var = ''vel_x'' then (nvar, y, z)
                                  else if var = ''vel_y'' then (x, nvar, z)
                                  else if var = ''vel_z'' then (x, y, nvar)
                                  else (x, y, z))
             in (vectorIndices, nvar + 1, out))
           outputVars ((0, 0, 0), 0 :: int, resFile) of
        (vectorIndices, nvar, out) \<Rightarrow> (vectorIndices, out))"

definition WriteRes :: "(string \<Rightarrow> bool) \<Rightarrow> input \<Rightarrow> int \<Rightarrow> token list process" where
  "WriteRes opens inp iter =
     (let resName = results_file_name inp;
          outFreq = OutputFrequency inp
      in
      if \<not> opens resName then Exit EXIT_FAILURE (results_file_error resName) []
      else
        let writeName = SimNameRoot inp @ ''_*'' @ ''_center'' @ ''.fun'';
            outputVars = OutputVariables inp;
            hasVelVector = (''vel_x'' \<in> set outputVars \<and> ''vel_y'' \<in> set outputVars \<and>
                            ''vel_z'' \<in> set outputVars);
            numScalar = NumVarsOutput inp;
            numVector = (if hasVelVector then 1 else 0 :: int);
            resFile = [WriteText (to_string numScalar), WriteText ''     '',
                       WriteText (to_string numVector), WriteText ''     '',
                       WriteText (to_string 0), WriteText endl]
        in
        if outFreq = 0 \<or> (iter = - (2 ^ 31) \<and> outFreq = - 1) then Undefined_behaviour
        else
          let numTime = int32 (truncated_div iter outFreq + 1);
              resFile = resFile @ [WriteText (to_string numTime), WriteText endl];
              resFile = write_times numTime outFreq resFile;
              resFile = resFile @ [WriteText endl];
              resFile = resFile @ [WriteText (to_string outFreq), WriteText ''  '',
                                   WriteText (to_string outFreq), WriteText endl];
              ((x, y, z), resFile) = write_scalars writeName outputVars resFile;
              resFile = (if hasVelVector
                         then resFile @ [WriteText writeName, WriteText '' F '',
                                         WriteText (setw4 x), WriteText '' '',
                                         WriteText (setw4 y), WriteText '' '',
                                         WriteText (setw4 z), WriteText ('' velocity'' @ [CHR 0x0A])]
                         else resFile)
          in Finished resFile)"

section \<open>Theorems\<close>

subsection \<open>SplitBlockNumber\<close>

lemma SplitBlockNumber_no_splits:
  "splitHist decomp = [] \<Longrightarrow> SplitBlockNumber vars decomp blk ii jj kk = Some blk"
  by (simp add: SplitBlockNumber_def NumSplits_def)

lemma twice_split_extents:
  "split_extents (initial_blkDims [box 10 1 1]) (splitHist twice_split) =
     Some [((0, 0, 0), (3, 1, 1)), ((6, 0, 0), (10, 1, 1)), ((3, 0, 0), (6, 1, 1))]"
  by (simp add: twice_split_def initial_blkDims_def initialLower_def box_def vec_at_def cut_def)

text \<open>
  Claim C1, as stated: for every interior cell of every recombined block and every split
  history, \<^verbatim>\<open>SplitBlockNumber\<close> returns a split block that owns the cell. It does not
  when a lower child is cut again. In the history \<open>twice_split\<close>, which is recorded
  consistently, cell \<open>(4, 0, 0)\<close> of block 0 lies in block 2, which holds the cells
  \<open>3 \<le> i < 6\<close>, and in no other block; the function leaves the loop at the first split,
  where the cell is not in the upper child, and returns block 0, which holds the cells
  \<open>0 \<le> i < 3\<close>.
\<close>

theorem SplitBlockNumber_lower_resplit:
  "interior_cell (box 10 1 1) 4 0 0 \<and>
   history_ok (parBlock twice_split) 1 (splitHist twice_split) \<and>
   SplitBlockNumber [box 10 1 1] twice_split 0 4 0 0 = Some 0 \<and>
   split_extents (initial_blkDims [box 10 1 1]) (splitHist twice_split) =
     Some [((0, 0, 0), (3, 1, 1)), ((6, 0, 0), (10, 1, 1)), ((3, 0, 0), (6, 1, 1))] \<and>
   \<not> owns ((0, 0, 0), (3, 1, 1)) 4 0 0 \<and>
   owner_blocks [box 10 1 1] twice_split 0 4 0 0 = Some [2]"
proof -
  have i: "interior_cell (box 10 1 1) 4 0 0"
    by (simp add: interior_cell_def box_def)
  have h: "history_ok (parBlock twice_split) 1 (splitHist twice_split)"
    by (simp add: twice_split_def)
  have a: "SplitBlockNumber [box 10 1 1] twice_split 0 4 0 0 = Some 0"
    by (simp add: SplitBlockNumber_def NumSplits_def twice_split_def initial_blkDims_def
        initialLower_def box_def ParentBlock_def vec_at_def splitBlk_def in_upper_split_def)
  have n: "\<not> owns ((0, 0, 0), (3, 1, 1)) 4 0 0"
    by (simp add: owns_def)
  have b: "owner_blocks [box 10 1 1] twice_split 0 4 0 0 = Some [2]"
    unfolding owner_blocks_def twice_split_extents
    by (simp add: twice_split_def vec_at_def owns_def upt_conv_Cons)
  from i h a n b twice_split_extents show ?thesis by simp
qed


lemma snd_cut: "snd (cut d n e) = splitBlk d n e"
  by (cases e) (auto simp: cut_def splitBlk_def)

lemma cut_owns_upper:
  "owns e ii jj kk \<Longrightarrow> in_upper_split (splitBlk d n e) ii jj kk \<Longrightarrow>
   owns (snd (cut d n e)) ii jj kk"
  by (cases e) (auto simp: cut_def splitBlk_def owns_def in_upper_split_def split: if_splits)

lemma cut_owns_lower:
  "owns e ii jj kk \<Longrightarrow> \<not> in_upper_split (splitBlk d n e) ii jj kk \<Longrightarrow>
   owns (fst (cut d n e)) ii jj kk"
  by (cases e) (auto simp: cut_def splitBlk_def owns_def in_upper_split_def split: if_splits)

lemma split_extents_step:
  assumes "0 \<le> BlkLower s" "BlkLower s < int (length es)"
  shows "split_extents es (s # rest) =
         split_extents (es[nat (BlkLower s) := fst (cut (Dir s) (Index s) (es ! nat (BlkLower s)))] @
                        [snd (cut (Dir s) (Index s) (es ! nat (BlkLower s)))]) rest"
  using assms by (simp add: vec_at_def split_beta)

lemma split_extents_untouched:
  assumes "history_ok pb (length es) rest" and "b < length es"
    and "int b \<notin> BlkLower ` set rest"
  shows "\<exists>esf. split_extents es rest = Some esf \<and> esf ! b = es ! b \<and> b < length esf"
  using assms
proof (induction rest arbitrary: es)
  case Nil
  then show ?case by simp
next
  case (Cons s rest)
  let ?es = "es[nat (BlkLower s) := fst (cut (Dir s) (Index s) (es ! nat (BlkLower s)))] @
             [snd (cut (Dir s) (Index s) (es ! nat (BlkLower s)))]"
  have low: "0 \<le> BlkLower s" "BlkLower s < int (length es)" and ok: "history_ok pb (Suc (length es)) rest"
    using Cons.prems(1) by simp_all
  have ne: "nat (BlkLower s) \<noteq> b" using Cons.prems(3) low by auto
  have len: "length ?es = Suc (length es)" by simp
  have keep: "?es ! b = es ! b"
    using Cons.prems(2) ne by (simp add: nth_append)
  have "\<exists>esf. split_extents ?es rest = Some esf \<and> esf ! b = ?es ! b \<and> b < length esf"
  proof (rule Cons.IH)
    show "history_ok pb (length ?es) rest" using ok len by simp
    show "b < length ?es" using Cons.prems(2) by simp
    show "int b \<notin> BlkLower ` set rest" using Cons.prems(3) by simp
  qed
  then show ?case
    unfolding split_extents_step [OF low] keep by blast
qed


lemma SplitBlockNumber_loop_owner:
  assumes "history_ok (parBlock d) (n0 + ss) rest"
    and "distinct (map BlkLower rest)"
    and "length blkDims = n0 + ss" and "length es = n0 + ss"
    and "0 \<le> ind" and "nat ind < n0 + ss"
    and "parBlock d ! nat ind = blk"
    and "blkDims ! nat ind = es ! nat ind"
    and "owns (es ! nat ind) ii jj kk"
    and "\<forall>b<n0 + ss. parBlock d ! b = blk \<longrightarrow> b \<noteq> nat ind \<longrightarrow> int b \<notin> BlkLower ` set rest"
    and "nat ind < length (parBlock d)"
  shows "\<exists>n esf. SplitBlockNumber_loop d n0 blk ii jj kk rest ss blkDims ind = Some n \<and>
           split_extents es rest = Some esf \<and> 0 \<le> n \<and> nat n < length esf \<and>
           owns (esf ! nat n) ii jj kk \<and>
           nat n < length (parBlock d) \<and> parBlock d ! nat n = blk"
  using assms
proof (induction rest arbitrary: ss blkDims es ind)
  case Nil
  then show ?case by simp
next
  case (Cons s rest)
  let ?N = "n0 + ss"
  let ?pb = "parBlock d"
  let ?l = "nat (BlkLower s)"
  let ?e = "es ! ?l"
  let ?lo = "fst (cut (Dir s) (Index s) ?e)"
  let ?up = "snd (cut (Dir s) (Index s) ?e)"
  let ?es = "es[?l := ?lo] @ [?up]"
  have up: "BlkUpper s = int ?N" and low0: "0 \<le> BlkLower s" and lowN: "BlkLower s < int ?N"
    and pbN: "?N < length ?pb" and inh: "?pb ! ?N = ?pb ! ?l"
    and ok: "history_ok ?pb (n0 + Suc ss) rest"
    using Cons.prems(1) by simp_all
  have dist: "distinct (map BlkLower rest)" and fresh: "BlkLower s \<notin> BlkLower ` set rest"
    using Cons.prems(2) by simp_all
  have lN: "?l < ?N" using low0 lowN by simp
  have idx: "int ss + int n0 = int ?N" by simp
  have par: "ParentBlock d (int ss + int n0) = Some (?pb ! ?N)"
    unfolding idx using pbN by (simp add: ParentBlock_def vec_at_def del: of_nat_add)
  have ext: "split_extents es (s # rest) = split_extents ?es rest"
    by (rule split_extents_step) (use low0 lowN Cons.prems(4) in simp_all)
  have len_es: "length ?es = n0 + Suc ss" using Cons.prems(4) by simp
  show ?case
  proof (cases "?pb ! ?N = blk")
    case False
    have step: "SplitBlockNumber_loop d n0 blk ii jj kk (s # rest) ss blkDims ind =
                SplitBlockNumber_loop d n0 blk ii jj kk rest (Suc ss)
                  (blkDims @ [(initialLower, initialLower)]) ind"
      using False by (simp add: par)
    have ne: "?l \<noteq> nat ind" using False inh Cons.prems(7) by auto
    have keep: "?es ! nat ind = es ! nat ind"
      using ne Cons.prems(4,6) by (simp add: nth_append)
    have "\<exists>n esf. SplitBlockNumber_loop d n0 blk ii jj kk rest (Suc ss)
                     (blkDims @ [(initialLower, initialLower)]) ind = Some n \<and>
            split_extents ?es rest = Some esf \<and> 0 \<le> n \<and> nat n < length esf \<and>
            owns (esf ! nat n) ii jj kk \<and>
            nat n < length (parBlock d) \<and> parBlock d ! nat n = blk"
    proof (rule Cons.IH)
      show "history_ok ?pb (n0 + Suc ss) rest" by (rule ok)
      show "distinct (map BlkLower rest)" by (rule dist)
      show "length (blkDims @ [(initialLower, initialLower)]) = n0 + Suc ss"
        using Cons.prems(3) by simp
      show "length ?es = n0 + Suc ss" by (rule len_es)
      show "0 \<le> ind" by (rule Cons.prems(5))
      show "nat ind < n0 + Suc ss" using Cons.prems(6) by simp
      show "?pb ! nat ind = blk" by (rule Cons.prems(7))
      show "(blkDims @ [(initialLower, initialLower)]) ! nat ind = ?es ! nat ind"
        using Cons.prems(3,6,8) keep by (simp add: nth_append)
      show "owns (?es ! nat ind) ii jj kk" using keep Cons.prems(9) by simp
      show "nat ind < length ?pb" by (rule Cons.prems(11))
      show "\<forall>b<n0 + Suc ss. ?pb ! b = blk \<longrightarrow> b \<noteq> nat ind \<longrightarrow> int b \<notin> BlkLower ` set rest"
      proof (intro allI impI)
        fix b assume b: "b < n0 + Suc ss" "?pb ! b = blk" "b \<noteq> nat ind"
        then have "b < ?N" using False by (cases "b = ?N") auto
        then have "int b \<notin> BlkLower ` set (s # rest)" using Cons.prems(10) b by blast
        then show "int b \<notin> BlkLower ` set rest" by simp
      qed
    qed
    then show ?thesis unfolding step ext .
  next
    case True
    have l_ind: "?l = nat ind"
    proof (rule ccontr)
      assume "?l \<noteq> nat ind"
      moreover have "?pb ! ?l = blk" using True inh by simp
      ultimately have "int ?l \<notin> BlkLower ` set (s # rest)"
        using Cons.prems(10) lN by blast
      then show False using low0 by simp
    qed
    then have ind_eq: "BlkLower s = ind" using low0 Cons.prems(5) by simp
    have e_eq: "blkDims ! nat ind = ?e" using Cons.prems(8) l_ind by simp
    have low: "vec_at blkDims (BlkLower s) = Some ?e"
      using low0 lowN Cons.prems(3) e_eq l_ind by (simp add: vec_at_def)
    have upper: "vec_at (blkDims @ [splitBlk (Dir s) (Index s) ?e]) (BlkUpper s) =
                 Some (splitBlk (Dir s) (Index s) ?e)"
      using Cons.prems(3) by (simp add: vec_at_def up nth_append del: of_nat_add)
    have own_e: "owns ?e ii jj kk" using Cons.prems(9) l_ind by simp
    have body: "SplitBlockNumber_loop d n0 blk ii jj kk (s # rest) ss blkDims ind =
                (if \<not> in_upper_split (splitBlk (Dir s) (Index s) ?e) ii jj kk
                 then Some (BlkLower s)
                 else SplitBlockNumber_loop d n0 blk ii jj kk rest (Suc ss)
                        (blkDims @ [splitBlk (Dir s) (Index s) ?e]) (BlkUpper s))"
      using True by (simp add: par low upper Let_def)
    show ?thesis
    proof (cases "in_upper_split (splitBlk (Dir s) (Index s) ?e) ii jj kk")
      case False
      have step: "SplitBlockNumber_loop d n0 blk ii jj kk (s # rest) ss blkDims ind = Some ind"
        unfolding body using False by (simp add: ind_eq)
      have "\<exists>esf. split_extents ?es rest = Some esf \<and> esf ! nat ind = ?es ! nat ind \<and>
                  nat ind < length esf"
      proof (rule split_extents_untouched)
        show "history_ok ?pb (length ?es) rest" using ok len_es by simp
        show "nat ind < length ?es" using Cons.prems(6) len_es by simp
        show "int (nat ind) \<notin> BlkLower ` set rest"
          using fresh ind_eq Cons.prems(5) by simp
      qed
      then obtain esf where esf: "split_extents ?es rest = Some esf"
        "esf ! nat ind = ?es ! nat ind" "nat ind < length esf" by blast
      have "?es ! nat ind = ?lo"
        using l_ind Cons.prems(4,6) by (simp add: nth_append)
      moreover have "owns ?lo ii jj kk" using own_e False by (rule cut_owns_lower)
      ultimately have "owns (esf ! nat ind) ii jj kk" using esf(2) by simp
      then show ?thesis
        unfolding step ext using esf(1,3) Cons.prems(5,7,11) by blast
    next
      case in_up: True
      have step: "SplitBlockNumber_loop d n0 blk ii jj kk (s # rest) ss blkDims ind =
                  SplitBlockNumber_loop d n0 blk ii jj kk rest (Suc ss)
                    (blkDims @ [splitBlk (Dir s) (Index s) ?e]) (BlkUpper s)"
        unfolding body using in_up by simp
      have new: "?es ! ?N = ?up" using Cons.prems(4) by (simp add: nth_append)
      have "\<exists>n esf. SplitBlockNumber_loop d n0 blk ii jj kk rest (Suc ss)
                     (blkDims @ [splitBlk (Dir s) (Index s) ?e]) (BlkUpper s) = Some n \<and>
            split_extents ?es rest = Some esf \<and> 0 \<le> n \<and> nat n < length esf \<and>
            owns (esf ! nat n) ii jj kk \<and>
            nat n < length (parBlock d) \<and> parBlock d ! nat n = blk"
      proof (rule Cons.IH)
        show "history_ok ?pb (n0 + Suc ss) rest" by (rule ok)
        show "distinct (map BlkLower rest)" by (rule dist)
        show "length (blkDims @ [splitBlk (Dir s) (Index s) ?e]) = n0 + Suc ss"
          using Cons.prems(3) by simp
        show "length ?es = n0 + Suc ss" by (rule len_es)
        show "0 \<le> BlkUpper s" using up by simp
        show "nat (BlkUpper s) < n0 + Suc ss" by (simp add: up del: of_nat_add)
        show "?pb ! nat (BlkUpper s) = blk" using True by (simp add: up del: of_nat_add)
        show "(blkDims @ [splitBlk (Dir s) (Index s) ?e]) ! nat (BlkUpper s) =
              ?es ! nat (BlkUpper s)"
          using Cons.prems(3) new by (simp add: up snd_cut nth_append del: of_nat_add)
        show "owns (?es ! nat (BlkUpper s)) ii jj kk"
          using new cut_owns_upper [OF own_e in_up] by (simp add: up del: of_nat_add)
        show "nat (BlkUpper s) < length ?pb"
          using pbN by (simp add: up del: of_nat_add)
        show "\<forall>b<n0 + Suc ss. ?pb ! b = blk \<longrightarrow> b \<noteq> nat (BlkUpper s) \<longrightarrow>
                int b \<notin> BlkLower ` set rest"
        proof (intro allI impI)
          fix b assume b: "b < n0 + Suc ss" "?pb ! b = blk" "b \<noteq> nat (BlkUpper s)"
          then have bN: "b < ?N" by (simp add: up del: of_nat_add)
          show "int b \<notin> BlkLower ` set rest"
          proof (cases "b = nat ind")
            case True
            then show ?thesis using fresh ind_eq Cons.prems(5) by simp
          next
            case False
            then have "int b \<notin> BlkLower ` set (s # rest)" using Cons.prems(10) b(2) bN by blast
            then show ?thesis by simp
          qed
        qed
      qed
      then show ?thesis unfolding step ext .
    qed
  qed
qed

text \<open>
  Claim C1, as amended. \<^verbatim>\<open>SplitBlockNumber\<close> keeps, for every block, the lower corner
  of its extents and never narrows the upper corner, and it leaves the loop at the first
  split of the lineage whose upper child does not hold the cell. That is right when no
  block is cut twice, so that in every lineage only the upper child made last is cut
  again: for every consistently recorded history of this kind, every recombined block and
  every cell of it, the function returns a block that exists, descends from the recombined
  block and holds the cell in its extents, that is, one of the blocks that own the cell.
\<close>

theorem SplitBlockNumber_owner:
  assumes "0 \<le> blk" and "blk < int (length vars)"
    and "interior_cell (vars ! nat blk) ii jj kk"
    and "history_ok (parBlock decomp) (length vars) (splitHist decomp)"
    and "take (length vars) (parBlock decomp) = map int [0..<length vars]"
    and "distinct (map BlkLower (splitHist decomp))"
  shows "\<exists>n es ns. SplitBlockNumber vars decomp blk ii jj kk = Some n \<and>
           split_extents (initial_blkDims vars) (splitHist decomp) = Some es \<and>
           0 \<le> n \<and> nat n < length es \<and> owns (es ! nat n) ii jj kk \<and>
           nat n < length (parBlock decomp) \<and> parBlock decomp ! nat n = blk \<and>
           owner_blocks vars decomp blk ii jj kk = Some ns \<and> nat n \<in> set ns"
proof -
  have pb: "parBlock decomp ! b = int b" if "b < length vars" for b
  proof -
    have "take (length vars) (parBlock decomp) ! b = map int [0..<length vars] ! b"
      using assms(5) by simp
    then show ?thesis using that by simp
  qed
  have pblen: "length vars \<le> length (parBlock decomp)"
  proof -
    have "length (take (length vars) (parBlock decomp)) = length (map int [0..<length vars])"
      using assms(5) by simp
    then show ?thesis by simp
  qed
  have main: "\<exists>n es. SplitBlockNumber vars decomp blk ii jj kk = Some n \<and>
           split_extents (initial_blkDims vars) (splitHist decomp) = Some es \<and>
           0 \<le> n \<and> nat n < length es \<and> owns (es ! nat n) ii jj kk \<and>
           nat n < length (parBlock decomp) \<and> parBlock decomp ! nat n = blk"
  proof (cases "splitHist decomp = []")
  case True
  have "owns (initial_blkDims vars ! nat blk) ii jj kk"
    using assms(1-3) by (simp add: initial_blkDims_def initialLower_def owns_def interior_cell_def)
  moreover have "nat blk < length (parBlock decomp)" using assms(1,2) pblen by simp
  moreover have "parBlock decomp ! nat blk = blk" using pb [of "nat blk"] assms(1,2) by simp
  ultimately show ?thesis
    using True assms(1,2) by (simp add: SplitBlockNumber_def NumSplits_def initial_blkDims_def)
next
  case False
  have "\<exists>n esf. SplitBlockNumber_loop decomp (length vars) blk ii jj kk (splitHist decomp) 0
                   (initial_blkDims vars) blk = Some n \<and>
          split_extents (initial_blkDims vars) (splitHist decomp) = Some esf \<and> 0 \<le> n \<and>
          nat n < length esf \<and> owns (esf ! nat n) ii jj kk \<and>
          nat n < length (parBlock decomp) \<and> parBlock decomp ! nat n = blk"
  proof (rule SplitBlockNumber_loop_owner)
    show "history_ok (parBlock decomp) (length vars + 0) (splitHist decomp)"
      using assms(4) by simp
    show "distinct (map BlkLower (splitHist decomp))" by (rule assms(6))
    show "length (initial_blkDims vars) = length vars + 0"
      by (simp add: initial_blkDims_def)
    then show "length (initial_blkDims vars) = length vars + 0" .
    show "0 \<le> blk" by (rule assms(1))
    show "nat blk < length vars + 0" using assms(1,2) by simp
    show "parBlock decomp ! nat blk = blk" using pb [of "nat blk"] assms(1,2) by simp
    show "initial_blkDims vars ! nat blk = initial_blkDims vars ! nat blk" by simp
    show "owns (initial_blkDims vars ! nat blk) ii jj kk"
      using assms(1-3)
      by (simp add: initial_blkDims_def initialLower_def owns_def interior_cell_def)
    show "\<forall>b<length vars + 0. parBlock decomp ! b = blk \<longrightarrow> b \<noteq> nat blk \<longrightarrow>
            int b \<notin> BlkLower ` set (splitHist decomp)"
      using pb by auto
    show "nat blk < length (parBlock decomp)" using assms(1,2) pblen by simp
  qed
  then show ?thesis
    using False by (simp add: SplitBlockNumber_def NumSplits_def)
  qed
  then obtain n es where n: "SplitBlockNumber vars decomp blk ii jj kk = Some n"
    and es: "split_extents (initial_blkDims vars) (splitHist decomp) = Some es"
    and rest: "0 \<le> n" "nat n < length es" "owns (es ! nat n) ii jj kk"
      "nat n < length (parBlock decomp)" "parBlock decomp ! nat n = blk"
    by blast
  let ?ns = "filter (\<lambda>m. vec_at (parBlock decomp) (int m) = Some blk \<and> owns (es ! m) ii jj kk)
               [0..<length es]"
  have o: "owner_blocks vars decomp blk ii jj kk = Some ?ns"
    by (simp add: owner_blocks_def es)
  have "vec_at (parBlock decomp) (int (nat n)) = Some blk"
    using rest(1,4,5) by (auto simp: vec_at_def)
  then have "nat n \<in> set ?ns" using rest(2,3) by simp
  with n es rest o show ?thesis by blast
qed


theorem SplitBlockNumber_owner_witness:
  "(0::int) \<le> 1 \<and> (1::int) < int (length [box 10 1 1, box 10 10 1]) \<and>
   interior_cell ([box 10 1 1, box 10 10 1] ! nat 1) 7 0 0 \<and>
   history_ok (parBlock upper_split) (length [box 10 1 1, box 10 10 1]) (splitHist upper_split) \<and>
   take (length [box 10 1 1, box 10 10 1]) (parBlock upper_split) =
     map int [0..<length [box 10 1 1, box 10 10 1]] \<and>
   distinct (map BlkLower (splitHist upper_split)) \<and>
   (\<exists>n es ns. SplitBlockNumber [box 10 1 1, box 10 10 1] upper_split 1 7 0 0 = Some n \<and>
      split_extents (initial_blkDims [box 10 1 1, box 10 10 1]) (splitHist upper_split) = Some es \<and>
      0 \<le> n \<and> nat n < length es \<and> owns (es ! nat n) 7 0 0 \<and>
      nat n < length (parBlock upper_split) \<and> parBlock upper_split ! nat n = 1 \<and>
      owner_blocks [box 10 1 1, box 10 10 1] upper_split 1 7 0 0 = Some ns \<and> nat n \<in> set ns) \<and>
   SplitBlockNumber [box 10 1 1, box 10 10 1] upper_split 1 7 0 0 = Some 2 \<and>
   split_extents (initial_blkDims [box 10 1 1, box 10 10 1]) (splitHist upper_split) =
     Some [((0, 0, 0), (10, 1, 1)), ((0, 0, 0), (6, 10, 1)), ((6, 0, 0), (10, 5, 1)),
           ((6, 5, 0), (10, 10, 1))] \<and>
   owns ((0, 0, 0), (10, 1, 1)) 7 0 0 \<and>
   owner_blocks [box 10 1 1, box 10 10 1] upper_split 1 7 0 0 = Some [2]"
proof -
  have h1: "(0::int) \<le> 1" by simp
  have h2: "(1::int) < int (length [box 10 1 1, box 10 10 1])" by simp
  have h3: "interior_cell ([box 10 1 1, box 10 10 1] ! nat 1) 7 0 0"
    by (simp add: interior_cell_def box_def)
  have h4: "history_ok (parBlock upper_split) (length [box 10 1 1, box 10 10 1])
              (splitHist upper_split)"
    by (simp add: upper_split_def)
  have h5: "take (length [box 10 1 1, box 10 10 1]) (parBlock upper_split) =
            map int [0..<length [box 10 1 1, box 10 10 1]]"
    by (simp add: upper_split_def upt_conv_Cons)
  have h6: "distinct (map BlkLower (splitHist upper_split))"
    by (simp add: upper_split_def)
  have a: "SplitBlockNumber [box 10 1 1, box 10 10 1] upper_split 1 7 0 0 = Some 2"
    by (simp add: SplitBlockNumber_def NumSplits_def upper_split_def initial_blkDims_def
        initialLower_def box_def ParentBlock_def vec_at_def splitBlk_def in_upper_split_def)
  have e: "split_extents (initial_blkDims [box 10 1 1, box 10 10 1]) (splitHist upper_split) =
     Some [((0, 0, 0), (10, 1, 1)), ((0, 0, 0), (6, 10, 1)), ((6, 0, 0), (10, 5, 1)),
           ((6, 5, 0), (10, 10, 1))]"
    by (simp add: upper_split_def initial_blkDims_def initialLower_def box_def vec_at_def
        cut_def)
  have w: "owns ((0, 0, 0), (10, 1, 1)) 7 0 0" by (simp add: owns_def)
  have o: "owner_blocks [box 10 1 1, box 10 10 1] upper_split 1 7 0 0 = Some [2]"
    unfolding owner_blocks_def e
    by (simp add: upper_split_def vec_at_def owns_def upt_conv_Cons)
  from SplitBlockNumber_owner [OF h1 h2 h3 h4 h5 h6] h1 h2 h3 h4 h5 h6 a e w o
  show ?thesis by blast
qed

subsection \<open>Recombine\<close>

lemma length_undo_split: "length (undo_split join bs s) = length bs - 1"
  by (simp add: undo_split_def)

lemma Recombine_loop_step:
  assumes "n < length (splitHist decomp)"
    and "split_in_range (splitHist decomp ! n) (length bs)"
  shows "Recombine_loop join decomp (Suc n) bs =
         Recombine_loop join decomp n (undo_split join bs (splitHist decomp ! n))"
  using assms
  by (simp add: SplitHistBlkLower_def SplitHistBlkUpper_def SplitHistDir_def vec_at_def
      split_in_range_def undo_split_def)

lemma Recombine_loop_replay:
  assumes "n \<le> length (splitHist decomp)" and "n \<le> length bs"
    and "\<forall>ss<n. split_in_range (splitHist decomp ! ss) (length bs - n + ss + 1)"
  shows "Recombine_loop join decomp n bs =
         Some (foldl (undo_split join) bs (rev (take n (splitHist decomp))))"
  using assms
proof (induction n arbitrary: bs)
  case 0
  then show ?case by simp
next
  case (Suc n)
  let ?s = "splitHist decomp ! n"
  have n: "n < length (splitHist decomp)" using Suc.prems(1) by simp
  have eq: "length bs - Suc n + n + 1 = length bs" using Suc.prems(2) by arith
  have rng: "split_in_range ?s (length bs)"
    using Suc.prems(3) [rule_format, of n] unfolding eq by simp
  have step: "Recombine_loop join decomp (Suc n) bs =
              Recombine_loop join decomp n (undo_split join bs ?s)"
    by (rule Recombine_loop_step [OF n rng])
  have len: "length (undo_split join bs ?s) = length bs - 1"
    by (rule length_undo_split)
  have rest: "\<forall>ss<n. split_in_range (splitHist decomp ! ss)
                (length (undo_split join bs ?s) - n + ss + 1)"
  proof (intro allI impI)
    fix ss assume ss: "ss < n"
    have e2: "length (undo_split join bs ?s) - n + ss + 1 = length bs - Suc n + ss + 1"
      using Suc.prems(2) len by arith
    show "split_in_range (splitHist decomp ! ss)
            (length (undo_split join bs ?s) - n + ss + 1)"
      using Suc.prems(3) [rule_format, of ss] ss unfolding e2 by simp
  qed
  have "Recombine_loop join decomp n (undo_split join bs ?s) =
        Some (foldl (undo_split join) (undo_split join bs ?s) (rev (take n (splitHist decomp))))"
    using Suc.IH [of "undo_split join bs ?s"] n Suc.prems(2) len rest by simp
  moreover have "take (Suc n) (splitHist decomp) = take n (splitHist decomp) @ [?s]"
    using n by (simp add: take_Suc_conv_app_nth)
  ultimately show ?case using step by simp
qed

lemma length_foldl_undo_split:
  "length (foldl (undo_split join) bs ss) = length bs - length ss"
  by (induction ss arbitrary: bs) (simp_all add: length_undo_split)

text \<open>
  Whatever the two missing routines compute: if joining the two parts of a cut gives the
  block back, then recombining the blocks that a recorded history has produced gives the
  blocks from before the first split.
\<close>


lemma splits_ok_append:
  "splits_ok n (ss @ [s]) \<longleftrightarrow>
     splits_ok n ss \<and> BlkUpper s = int (n + length ss) \<and> 0 \<le> BlkLower s \<and>
     BlkLower s < int (n + length ss)"
  by (induction ss arbitrary: n) auto

lemma length_foldl_apply_split:
  "length (foldl (apply_split cutb) bs ss) = length bs + length ss"
  by (induction ss arbitrary: bs) (simp_all add: apply_split_def)

lemma undo_apply_split:
  assumes "\<And>b d n. join (fst (cutb b d n)) (snd (cutb b d n)) d = b"
    and "BlkUpper s = int (length bs)" and "0 \<le> BlkLower s" and "BlkLower s < int (length bs)"
  shows "undo_split join (apply_split cutb bs s) s = bs"
proof -
  let ?l = "nat (BlkLower s)"
  have l: "?l < length bs" using assms(3,4) by simp
  have u: "nat (BlkUpper s) = length bs" using assms(2) by simp
  show ?thesis
    using l by (simp add: undo_split_def apply_split_def u nth_append assms(1)
        list_update_append1)
qed

lemma splits_ok_in_range:
  assumes "splits_ok n ss" and "i < length ss"
  shows "split_in_range (ss ! i) (n + i + 1)"
  using assms
proof (induction ss arbitrary: n i)
  case Nil
  then show ?case by simp
next
  case (Cons s ss)
  show ?case
  proof (cases i)
    case 0
    then show ?thesis using Cons.prems by (simp add: split_in_range_def)
  next
    case (Suc j)
    then have "split_in_range (ss ! j) (Suc n + j + 1)"
      using Cons.prems by (intro Cons.IH) simp_all
    then show ?thesis using Suc by simp
  qed
qed

lemma Recombine_undoes_splits:
  assumes "\<And>b d n. join (fst (cutb b d n)) (snd (cutb b d n)) d = b"
    and "splits_ok (length bs) (splitHist decomp)"
  shows "Recombine join (foldl (apply_split cutb) bs (splitHist decomp)) decomp = Some bs"
proof -
  let ?S = "splitHist decomp"
  let ?vars = "foldl (apply_split cutb) bs ?S"
  have len: "length ?vars = length bs + length ?S" by (rule length_foldl_apply_split)
  have undo: "foldl (undo_split join) (foldl (apply_split cutb) bs ss) (rev ss) = bs"
    if "splits_ok (length bs) ss" for ss
    using that
  proof (induction ss rule: rev_induct)
    case Nil
    then show ?case by simp
  next
    case (snoc s ss)
    have ok: "splits_ok (length bs) ss" and up: "BlkUpper s = int (length bs + length ss)"
      and lo: "0 \<le> BlkLower s" "BlkLower s < int (length bs + length ss)"
      using snoc.prems by (simp_all add: splits_ok_append)
    have "undo_split join (apply_split cutb (foldl (apply_split cutb) bs ss) s) s =
          foldl (apply_split cutb) bs ss"
      by (rule undo_apply_split) (use assms(1) up lo in \<open>simp_all add: length_foldl_apply_split\<close>)
    then show ?case using snoc.IH [OF ok] by simp
  qed
  have "Recombine_loop join decomp (length ?S) ?vars =
        Some (foldl (undo_split join) ?vars (rev (take (length ?S) ?S)))"
  proof (rule Recombine_loop_replay)
    show "length ?S \<le> length ?S" by simp
    show "length ?S \<le> length ?vars" using len by simp
    show "\<forall>ss<length ?S. split_in_range (?S ! ss) (length ?vars - length ?S + ss + 1)"
      using splits_ok_in_range [OF assms(2)] len by simp
  qed
  then show ?thesis
    by (simp add: Recombine_def NumSplits_def undo [OF assms(2)])
qed


text \<open>
  Claim C2. \<^verbatim>\<open>Recombine\<close> replays the recorded splits from the last to the first; each
  step fuses the lower child with the upper child along the recorded axis and drops one
  block, so the result has as many blocks as the input less the number of splits. The
  hypotheses say that the input has a block for every split and that the two blocks of
  every split exist in the vector when the split is undone, that is, split number \<open>ss\<close>
  names blocks among the first \<open>n\<^sub>0 + ss + 1\<close>, where \<open>n\<^sub>0\<close> is the number of blocks before
  any split. That the blocks are those from before the splits is the preceding lemma,
  \<open>Recombine_undoes_splits\<close>, which needs \<^verbatim>\<open>Join\<close> to undo \<^verbatim>\<open>Split\<close>.
\<close>

theorem Recombine_reverse_replay:
  assumes "length (splitHist decomp) \<le> length vars"
    and "\<forall>ss<length (splitHist decomp).
           split_in_range (splitHist decomp ! ss)
             (length vars - length (splitHist decomp) + ss + 1)"
  shows "Recombine join vars decomp =
           Some (foldl (undo_split join) vars (rev (splitHist decomp))) \<and>
         length (foldl (undo_split join) vars (rev (splitHist decomp))) =
           length vars - length (splitHist decomp)"
proof -
  have "Recombine_loop join decomp (length (splitHist decomp)) vars =
        Some (foldl (undo_split join) vars
               (rev (take (length (splitHist decomp)) (splitHist decomp))))"
    by (rule Recombine_loop_replay) (use assms in simp_all)
  then show ?thesis
    by (simp add: Recombine_def NumSplits_def length_foldl_undo_split)
qed

theorem Recombine_reverse_replay_witness:
  "length (splitHist twice_split) \<le> length [box 3 1 1, box 4 1 1, box 3 1 1] \<and>
   split_in_range (splitHist twice_split ! 0) 2 \<and>
   split_in_range (splitHist twice_split ! 1) 3 \<and>
   Recombine join_sizes [box 3 1 1, box 4 1 1, box 3 1 1] twice_split = Some [box 10 1 1] \<and>
   length [box 10 1 1] = length [box 3 1 1, box 4 1 1, box 3 1 1] - length (splitHist twice_split)"
proof -
  have h1: "length (splitHist twice_split) \<le> length [box 3 1 1, box 4 1 1, box 3 1 1]"
    by (simp add: twice_split_def)
  have s0: "split_in_range (splitHist twice_split ! 0) 2"
    and s1: "split_in_range (splitHist twice_split ! 1) 3"
    by (simp_all add: twice_split_def split_in_range_def)
  have h2: "\<forall>ss<length (splitHist twice_split).
      split_in_range (splitHist twice_split ! ss)
        (length [box 3 1 1, box 4 1 1, box 3 1 1] - length (splitHist twice_split) + ss + 1)"
    by (simp add: twice_split_def split_in_range_def less_Suc_eq)
  have r: "foldl (undo_split join_sizes) [box 3 1 1, box 4 1 1, box 3 1 1]
             (rev (splitHist twice_split)) = [box 10 1 1]"
    by (simp add: twice_split_def undo_split_def join_sizes_def box_def)
  from Recombine_reverse_replay [OF h1 h2, of join_sizes] h1 s0 s1 r show ?thesis
    by simp
qed

subsection \<open>The residual report\<close>







lemma residual_row_cong:
  assumes "\<And>c. c < NUMVARS \<Longrightarrow> a c = b c"
  shows "residual_row inp nn mm a residLinf matrixResid =
         residual_row inp nn mm b residLinf matrixResid"
proof -
  have "a 0 = b 0" "a 1 = b 1" "a 2 = b 2" "a 3 = b 3" "a 4 = b 4" "a 5 = b 5" "a 6 = b 6"
    by (simp_all add: assms NUMVARS_def)
  then show ?thesis by (simp add: residual_row_def)
qed
















text \<open>
  Claim C6. At the first report (outer iteration 0, subiteration 0) the reference becomes
  the current residual, whatever it was before, so every normalized value that is printed
  is 1, and in particular at most 1. The hypothesis excludes the quotient \<open>0 / 0\<close>; it
  holds for every residual norm, which is not negative, and a positive \<^verbatim>\<open>EPS\<close>.
\<close>

theorem PrintResiduals_first_report:
  assumes "\<forall>c<NUMVARS. residL2 c + eps \<noteq> 0"
  shows "PrintResiduals inp eps residL2First residL2 residLinf matrixResid 0 0 =
           (residL2, residual_row inp 0 0 (\<lambda>c. 1) residLinf matrixResid) \<and>
         (\<forall>c<NUMVARS.
            resNormL2 eps residL2
              (fst (PrintResiduals inp eps residL2First residL2 residLinf matrixResid 0 0)) c
            \<le> 1)"
proof -
  have first: "determine_normalization residL2First residL2 0 0 = residL2"
    by (simp add: determine_normalization_def)
  have one: "resNormL2 eps residL2 residL2 c = 1" if "c < NUMVARS" for c
    using assms that by (simp add: resNormL2_def genArray_div_def genArray_add_def)
  have "residual_row inp 0 0 (resNormL2 eps residL2 residL2) residLinf matrixResid =
        residual_row inp 0 0 (\<lambda>c. 1) residLinf matrixResid"
    by (rule residual_row_cong) (simp add: one)
  then show ?thesis
    by (simp add: PrintResiduals_def first one)
qed

theorem PrintResiduals_first_report_witness:
  "list_all (\<lambda>c. real c + 1 / 1000 \<noteq> 0) [0..<NUMVARS] \<and>
   PrintResiduals example_input (1 / 1000) (\<lambda>c. 0) real example_resid 0 0 0 =
     (real, [Integer 0, Integer 0, Double 2, Double 1, Double 1, Double 1, Double 1, Double 1,
             Double 1, Double 1, Integer 0, Integer 0, Integer 0, Integer 0, Integer 0,
             Double 0, Double 0, Endl]) \<and>
   resNormL2 (1 / 1000) real
     (fst (PrintResiduals example_input (1 / 1000) (\<lambda>c. 0) real example_resid 0 0 0)) 3 \<le> 1"
proof -
  have h: "\<forall>c<NUMVARS. real c + 1 / 1000 \<noteq> 0"
    by (simp add: add_nonneg_eq_0_iff)
  have l: "list_all (\<lambda>c. real c + 1 / 1000 \<noteq> 0) [0..<NUMVARS]"
    using h by (simp add: list_all_iff)
  have r: "residual_row example_input 0 0 (\<lambda>c. 1) example_resid 0 =
     [Integer 0, Integer 0, Double 2, Double 1, Double 1, Double 1, Double 1, Double 1,
      Double 1, Double 1, Integer 0, Integer 0, Integer 0, Integer 0, Integer 0,
      Double 0, Double 0, Endl]"
    by (simp add: residual_row_def example_input_def example_resid_def)
  have n: "(3::nat) < NUMVARS" by (simp add: NUMVARS_def)
  note t = PrintResiduals_first_report [OF h, of example_input "\<lambda>c. 0" example_resid 0]
  have a: "PrintResiduals example_input (1 / 1000) (\<lambda>c. 0) real example_resid 0 0 0 =
     (real, [Integer 0, Integer 0, Double 2, Double 1, Double 1, Double 1, Double 1, Double 1,
             Double 1, Double 1, Integer 0, Integer 0, Integer 0, Integer 0, Integer 0,
             Double 0, Double 0, Endl])"
    using t [THEN conjunct1] unfolding r .
  have b: "resNormL2 (1 / 1000) real
     (fst (PrintResiduals example_input (1 / 1000) (\<lambda>c. 0) real example_resid 0 0 0)) 3 \<le> 1"
    using t [THEN conjunct2] n by blast
  from l a b show ?thesis by blast
qed


subsection \<open>WriteFun: the layout of the function file\<close>


lemma for_each_total:
  assumes "\<And>x s. x \<in> set xs \<Longrightarrow> body x s = Some (g x s)"
  shows "for_each xs body s = Some (fold g xs s)"
  using assms by (induction xs arbitrary: s) simp_all

lemma fold_append_each:
  assumes "\<And>x out. x \<in> set xs \<Longrightarrow> f x out = out @ g x"
  shows "fold f xs out = out @ concat (map g xs)"
  using assms by (induction xs arbitrary: out) simp_all

lemma fold_update_i:
  "fold (\<lambda>ip arr. arr((int ip, J, K) := v ip)) [0..<n] (arr :: dumArr) =
     (\<lambda>(i, j, k). if j = J \<and> k = K \<and> 0 \<le> i \<and> i < int n then v (nat i) else arr (i, j, k))"
proof (induction n)
  case 0
  then show ?case by (simp add: fun_eq_iff)
next
  case (Suc n)
  let ?G = "\<lambda>ip arr. arr((int ip, J, K) := v ip)"
  have "fold ?G [0..<Suc n] arr = (fold ?G [0..<n] arr)((int n, J, K) := v n)"
    by simp
  also have "\<dots> = (\<lambda>(i, j, k). if j = J \<and> k = K \<and> 0 \<le> i \<and> i < int (Suc n)
                                 then v (nat i) else arr (i, j, k))"
    unfolding Suc by (auto simp: fun_eq_iff)
  finally show ?case .
qed

lemma fold_update_j:
  "fold (\<lambda>jp. fold (\<lambda>ip arr. arr((int ip, int jp, K) := v ip jp)) [0..<ni]) [0..<n]
     (arr :: dumArr) =
     (\<lambda>(i, j, k). if k = K \<and> 0 \<le> j \<and> j < int n \<and> 0 \<le> i \<and> i < int ni
                   then v (nat i) (nat j) else arr (i, j, k))"
proof (induction n)
  case 0
  then show ?case by (simp add: fun_eq_iff)
next
  case (Suc n)
  let ?F = "\<lambda>jp. fold (\<lambda>ip arr. arr((int ip, int jp, K) := v ip jp)) [0..<ni]"
  have "fold ?F [0..<Suc n] arr =
        fold (\<lambda>ip arr. arr((int ip, int n, K) := v ip n)) [0..<ni] (fold ?F [0..<n] arr)"
    by simp
  also have "\<dots> = (\<lambda>(i, j, k). if j = int n \<and> k = K \<and> 0 \<le> i \<and> i < int ni then v (nat i) n
                                 else fold ?F [0..<n] arr (i, j, k))"
    by (rule fold_update_i)
  also have "\<dots> = (\<lambda>(i, j, k). if k = K \<and> 0 \<le> j \<and> j < int (Suc n) \<and> 0 \<le> i \<and> i < int ni
                   then v (nat i) (nat j) else arr (i, j, k))"
    unfolding Suc by (auto simp: fun_eq_iff)
  finally show ?case .
qed

lemma fold_update_k:
  "fold (\<lambda>kp. fold (\<lambda>jp. fold (\<lambda>ip arr. arr((int ip, int jp, int kp) := v ip jp kp))
       [0..<ni]) [0..<nj]) [0..<n] (arr :: dumArr) =
     (\<lambda>(i, j, k). if 0 \<le> k \<and> k < int n \<and> 0 \<le> j \<and> j < int nj \<and> 0 \<le> i \<and> i < int ni
                   then v (nat i) (nat j) (nat k) else arr (i, j, k))"
proof (induction n)
  case 0
  then show ?case by (simp add: fun_eq_iff)
next
  case (Suc n)
  let ?F = "\<lambda>kp. fold (\<lambda>jp. fold (\<lambda>ip arr. arr((int ip, int jp, int kp) := v ip jp kp))
       [0..<ni]) [0..<nj]"
  have "fold ?F [0..<Suc n] arr =
        fold (\<lambda>jp. fold (\<lambda>ip arr. arr((int ip, int jp, int n) := v ip jp n)) [0..<ni]) [0..<nj]
          (fold ?F [0..<n] arr)"
    by simp
  also have "\<dots> = (\<lambda>(i, j, k). if k = int n \<and> 0 \<le> j \<and> j < int nj \<and> 0 \<le> i \<and> i < int ni
                                 then v (nat i) (nat j) n
                                 else fold ?F [0..<n] arr (i, j, k))"
    by (rule fold_update_j)
  also have "\<dots> = (\<lambda>(i, j, k). if 0 \<le> k \<and> k < int (Suc n) \<and> 0 \<le> j \<and> j < int nj \<and> 0 \<le> i \<and> i < int ni
                   then v (nat i) (nat j) (nat k) else arr (i, j, k))"
    unfolding Suc by (auto simp: fun_eq_iff)
  finally show ?case .
qed


lemma cells_defined_iff:
  "cells_defined b c \<longleftrightarrow>
     (\<forall>kp<nat (NumK b). \<forall>jp<nat (NumJ b). \<forall>ip<nat (NumI b).
        c (int ip) (int jp) (int kp) \<noteq> None)"
  by (auto simp: cells_defined_def list_all_iff)

lemma fill_dumArr_defined:
  assumes "cells_defined b c"
  shows "fill_dumArr b c arr =
    Some (\<lambda>(i, j, k).
      if 0 \<le> k \<and> k < int (nat (NumK b)) \<and> 0 \<le> j \<and> j < int (nat (NumJ b)) \<and>
         0 \<le> i \<and> i < int (nat (NumI b))
      then the (c (int (nat i)) (int (nat j)) (int (nat k))) else arr (i, j, k))"
proof -
  let ?is = "[0..<nat (NumI b)]" and ?js = "[0..<nat (NumJ b)]" and ?ks = "[0..<nat (NumK b)]"
  let ?v = "\<lambda>ip jp kp. the (c (int ip) (int jp) (int kp))"
  have inner: "for_each ?is (\<lambda>ip arr. map_option (\<lambda>v. arr((int ip, int jp, int kp) := v))
                   (c (int ip) (int jp) (int kp))) s =
               Some (fold (\<lambda>ip arr. arr((int ip, int jp, int kp) := ?v ip jp kp)) ?is s)"
    if "kp \<in> set ?ks" "jp \<in> set ?js" for kp jp and s :: dumArr
    by (rule for_each_total) (use assms that in \<open>fastforce simp: cells_defined_iff\<close>)
  have middle: "for_each ?js (\<lambda>jp. for_each ?is (\<lambda>ip arr.
                   map_option (\<lambda>v. arr((int ip, int jp, int kp) := v))
                     (c (int ip) (int jp) (int kp)))) s =
               Some (fold (\<lambda>jp. fold (\<lambda>ip arr. arr((int ip, int jp, int kp) := ?v ip jp kp)) ?is)
                      ?js s)"
    if "kp \<in> set ?ks" for kp and s :: dumArr
  proof (rule for_each_total)
    fix jp and s :: dumArr
    assume "jp \<in> set ?js"
    with that show "for_each ?is (\<lambda>ip arr. map_option (\<lambda>v. arr((int ip, int jp, int kp) := v))
                      (c (int ip) (int jp) (int kp))) s =
                    Some (fold (\<lambda>ip arr. arr((int ip, int jp, int kp) := ?v ip jp kp)) ?is s)"
      by (rule inner)
  qed
  have "fill_dumArr b c arr =
        Some (fold (\<lambda>kp. fold (\<lambda>jp. fold (\<lambda>ip arr. arr((int ip, int jp, int kp) := ?v ip jp kp))
                ?is) ?js) ?ks arr)"
    unfolding fill_dumArr_def by (rule for_each_total) (rule middle)
  then show ?thesis by (simp only: fold_update_k)
qed

lemma fill_dumArr_cell:
  assumes "cells_defined b c" and "fill_dumArr b c arr = Some arr'"
    and "ii < nat (NumI b)" "jj < nat (NumJ b)" "kk < nat (NumK b)"
  shows "arr' (int ii, int jj, int kk) = the (c (int ii) (int jj) (int kk))"
  using assms(2-) unfolding fill_dumArr_defined [OF assms(1)] by auto

lemma write_dimensional_eq:
  "write_dimensional inp refSoS suth b var arr out =
     out @ concat (map (\<lambda>kk. concat (map (\<lambda>jj. map (\<lambda>ii.
         WriteDouble (dimensionalize inp refSoS suth var (arr (int ii, int jj, int kk))))
       [0..<nat (NumI b)]) [0..<nat (NumJ b)])) [0..<nat (NumK b)])"
proof -
  let ?w = "\<lambda>ii jj kk. WriteDouble (dimensionalize inp refSoS suth var (arr (int ii, int jj, int kk)))"
  have inner: "fold (\<lambda>ii out. out @ [?w ii jj kk]) xs out = out @ map (\<lambda>ii. ?w ii jj kk) xs"
    for jj kk xs out
    by (induction xs arbitrary: out) simp_all
  have middle: "fold (\<lambda>jj. fold (\<lambda>ii out. out @ [?w ii jj kk]) is) js out =
                out @ concat (map (\<lambda>jj. map (\<lambda>ii. ?w ii jj kk) is) js)"
    for kk "is" js out
    by (rule fold_append_each) (simp add: inner)
  show ?thesis
    unfolding write_dimensional_def
    by (rule fold_append_each) (simp add: middle)
qed

lemma write_variable_writable:
  assumes "nondimensional vars recombVars decomp eqnState ll var = Some c"
    and "cells_defined (recombVars ! ll) c"
  shows "\<exists>arr'. write_variable vars recombVars decomp eqnState suth inp refSoS ll var (arr, out) =
           Finished (arr', out @ variable_values inp refSoS suth (recombVars ! ll) var c)"
proof -
  let ?b = "recombVars ! ll"
  obtain arr' where f: "fill_dumArr ?b c arr = Some arr'"
    using fill_dumArr_defined [OF assms(2)] by blast
  have cell: "arr' (int ii, int jj, int kk) = the (c (int ii) (int jj) (int kk))"
    if "ii < nat (NumI ?b)" "jj < nat (NumJ ?b)" "kk < nat (NumK ?b)" for ii jj kk
    using assms(2) f that by (rule fill_dumArr_cell)
  have "write_dimensional inp refSoS suth ?b var arr' out =
        out @ variable_values inp refSoS suth ?b var c"
    unfolding write_dimensional_eq variable_values_def cells_def
    by (intro arg_cong [where f = "(@) out"] arg_cong [where f = concat] map_cong refl)
      (simp add: cell)
  then show ?thesis
    by (simp add: write_variable_def assms(1) f)
qed

lemma write_variables_writable:
  assumes "\<forall>var\<in>set vs. writable vars recombVars decomp eqnState ll var"
  shows "\<exists>arr'. write_variables vars recombVars decomp eqnState suth inp
                  (SoS eqnState (PRef inp) (RRef inp)) ll vs (arr, out) =
           Finished (arr', out @ concat (map (block_values vars recombVars decomp eqnState suth inp ll) vs))"
  using assms
proof (induction vs arbitrary: arr out)
  case Nil
  then show ?case by simp
next
  case (Cons var vs)
  from Cons.prems obtain c where c: "nondimensional vars recombVars decomp eqnState ll var = Some c"
    and d: "cells_defined (recombVars ! ll) c"
    by (auto simp: writable_def split: option.splits)
  from write_variable_writable [OF c d] obtain arr' where
    w: "write_variable vars recombVars decomp eqnState suth inp (SoS eqnState (PRef inp) (RRef inp))
          ll var (arr, out) =
        Finished (arr', out @ block_values vars recombVars decomp eqnState suth inp ll var)"
    unfolding block_values_def c option.sel by blast
  from Cons.IH [of arr' "out @ block_values vars recombVars decomp eqnState suth inp ll var"]
    Cons.prems
  obtain arr'' where "write_variables vars recombVars decomp eqnState suth inp
         (SoS eqnState (PRef inp) (RRef inp)) ll vs
         (arr', out @ block_values vars recombVars decomp eqnState suth inp ll var) =
       Finished (arr'', (out @ block_values vars recombVars decomp eqnState suth inp ll var) @
         concat (map (block_values vars recombVars decomp eqnState suth inp ll) vs))"
    by auto
  then show ?case using w by simp
qed

lemma write_blocks_writable:
  assumes "\<forall>ll\<in>set lls. \<forall>var\<in>set (OutputVariables inp).
             writable vars recombVars decomp eqnState ll var"
  shows "write_blocks vars recombVars decomp eqnState suth inp
           (SoS eqnState (PRef inp) (RRef inp)) lls out =
         Finished (out @ concat (map (\<lambda>ll.
           concat (map (block_values vars recombVars decomp eqnState suth inp ll)
                    (OutputVariables inp))) lls))"
  using assms
proof (induction lls arbitrary: out)
  case Nil
  then show ?case by simp
next
  case (Cons ll lls)
  from Cons.prems have "\<forall>var\<in>set (OutputVariables inp).
       writable vars recombVars decomp eqnState ll var" by simp
  from write_variables_writable [OF this, of suth inp "\<lambda>c. 0" out]
  obtain arr' where v: "write_variables vars recombVars decomp eqnState suth inp
        (SoS eqnState (PRef inp) (RRef inp)) ll (OutputVariables inp) (\<lambda>c. 0, out) =
      Finished (arr', out @ concat (map (block_values vars recombVars decomp eqnState suth inp ll)
                                     (OutputVariables inp)))"
    by blast
  have rest: "\<forall>ll\<in>set lls. \<forall>var\<in>set (OutputVariables inp).
       writable vars recombVars decomp eqnState ll var"
    using Cons.prems by simp
  have "write_blocks vars recombVars decomp eqnState suth inp
          (SoS eqnState (PRef inp) (RRef inp)) (ll # lls) out =
        write_blocks vars recombVars decomp eqnState suth inp
          (SoS eqnState (PRef inp) (RRef inp)) lls
          (out @ concat (map (block_values vars recombVars decomp eqnState suth inp ll)
                          (OutputVariables inp)))"
    by (simp add: v)
  also note Cons.IH [OF rest]
  finally show ?case by simp
qed

lemma write_sizes_eq:
  "write_sizes recombVars (NumVarsOutput inp) out =
     out @ concat (map (block_sizes inp) recombVars)"
proof -
  have "write_sizes recombVars (NumVarsOutput inp) out =
        out @ concat (map (\<lambda>ll. block_sizes inp (recombVars ! ll)) [0..<length recombVars])"
    unfolding write_sizes_def
    by (rule fold_append_each) (simp add: block_sizes_def)
  moreover have "map (\<lambda>ll. block_sizes inp (recombVars ! ll)) [0..<length recombVars] =
                 map (block_sizes inp) recombVars"
    by (rule nth_equalityI) simp_all
  ultimately show ?thesis by simp
qed

lemma length_variable_values:
  "length (variable_values inp refSoS suth b var c) =
     nat (NumI b) * nat (NumJ b) * nat (NumK b)"
  by (simp add: variable_values_def cells_def length_concat sum_list_triv comp_def)

text \<open>
  Claim C5. When the file opens and every output variable can be written for every block,
  \<^verbatim>\<open>WriteFun\<close> returns and the file holds exactly \<open>function_file\<close>: the number of
  blocks as an \<^verbatim>\<open>int\<close>; then for every block the four \<^verbatim>\<open>int\<close>s \<^verbatim>\<open>NumI\<close>,
  \<^verbatim>\<open>NumJ\<close>, \<^verbatim>\<open>NumK\<close> (cells without ghost cells) and the number of variables; then for
  every block, and for every output variable in the order of the list, one \<^verbatim>\<open>double\<close> per
  cell, i running fastest and k slowest, which makes \<^verbatim>\<open>NumI * NumJ * NumK\<close> values.
\<close>

theorem WriteFun_layout:
  assumes "Recombine join vars decomp = Some recombVars"
    and "opens (function_file_name inp solIter)"
    and "\<forall>ll<length recombVars. \<forall>var\<in>set (OutputVariables inp).
           writable vars recombVars decomp eqnState ll var"
  shows "WriteFun join opens vars eqnState suth solIter decomp inp =
           Finished (function_file vars recombVars decomp eqnState suth inp) \<and>
         (\<forall>ll<length recombVars. \<forall>var\<in>set (OutputVariables inp).
            length (block_values vars recombVars decomp eqnState suth inp ll var) =
              nat (NumI (recombVars ! ll)) * nat (NumJ (recombVars ! ll)) *
              nat (NumK (recombVars ! ll)))"
proof -
  have "\<forall>ll\<in>set [0..<length recombVars]. \<forall>var\<in>set (OutputVariables inp).
          writable vars recombVars decomp eqnState ll var"
    using assms(3) by simp
  from write_blocks_writable [OF this]
  show ?thesis
    by (simp add: WriteFun_def assms(1,2) write_sizes_eq function_file_def block_values_def
        length_variable_values)
qed


theorem WriteFun_layout_witness:
  "Recombine join_sizes [ramp] no_splits = Some [ramp] \<and>
   writable [ramp] [ramp] no_splits unit_gas 0 ''density'' \<and>
   writable [ramp] [ramp] no_splits unit_gas 0 ''dt'' \<and>
   WriteFun join_sizes (\<lambda>name. True) [ramp] unit_gas unit_suth 7 no_splits two_variables =
     Finished [WriteInt 1, WriteInt 2, WriteInt 2, WriteInt 1, WriteInt 2,
               WriteDouble 11, WriteDouble 12, WriteDouble 21, WriteDouble 22,
               WriteDouble 0, WriteDouble (1 / 2), WriteDouble 5, WriteDouble (11 / 2)] \<and>
   length (block_values [ramp] [ramp] no_splits unit_gas unit_suth two_variables 0 ''dt'') = 4"
proof -
  have r: "Recombine join_sizes [ramp] no_splits = Some [ramp]"
    by (simp add: Recombine_def NumSplits_def no_splits_def)
  have w1: "writable [ramp] [ramp] no_splits unit_gas 0 ''density''"
    and w2: "writable [ramp] [ramp] no_splits unit_gas 0 ''dt''"
    by (simp_all add: writable_def nondimensional_def cells_defined_def Let_def list_all_iff)
  have w: "\<forall>ll<length [ramp]. \<forall>var\<in>set (OutputVariables two_variables).
             writable [ramp] [ramp] no_splits unit_gas ll var"
    using w1 w2 by (simp add: two_variables_def)
  have f: "function_file [ramp] [ramp] no_splits unit_gas unit_suth two_variables =
     [WriteInt 1, WriteInt 2, WriteInt 2, WriteInt 1, WriteInt 2,
      WriteDouble 11, WriteDouble 12, WriteDouble 21, WriteDouble 22,
      WriteDouble 0, WriteDouble (1 / 2), WriteDouble 5, WriteDouble (11 / 2)]"
    by (simp add: function_file_def block_sizes_def block_values_def variable_values_def
        cells_def nondimensional_def dimensionalize_def two_variables_def example_input_def
        ramp_def box_def unit_gas_def zero_primVars_def upt_conv_Cons Let_def)
  have n: "nat (NumI ([ramp] ! 0)) * nat (NumJ ([ramp] ! 0)) * nat (NumK ([ramp] ! 0)) = 4"
    by (simp add: ramp_def box_def)
  note t = WriteFun_layout [OF r _ w, of "\<lambda>name. True" 7 unit_suth]
  have a: "WriteFun join_sizes (\<lambda>name. True) [ramp] unit_gas unit_suth 7 no_splits two_variables =
     Finished [WriteInt 1, WriteInt 2, WriteInt 2, WriteInt 1, WriteInt 2,
               WriteDouble 11, WriteDouble 12, WriteDouble 21, WriteDouble 22,
               WriteDouble 0, WriteDouble (1 / 2), WriteDouble 5, WriteDouble (11 / 2)]"
    using t [THEN conjunct1] unfolding f by simp
  have b: "length (block_values [ramp] [ramp] no_splits unit_gas unit_suth two_variables 0 ''dt'') = 4"
    using t [THEN conjunct2] n by (simp add: two_variables_def)
  from r w1 w2 a b show ?thesis by blast
qed


subsection \<open>WriteFun: the variables\<close>


lemma nondimensional_unknown:
  "var \<notin> set recognized \<Longrightarrow> nondimensional vars recombVars decomp eqnState ll var = None"
  by (simp add: nondimensional_def recognized_def Let_def)

lemma nondimensional_known:
  "var \<in> set recognized \<Longrightarrow> nondimensional vars recombVars decomp eqnState ll var \<noteq> None"
  by (auto simp add: nondimensional_def recognized_def Let_def)

lemma dimensionalize_mach: "dimensionalize inp refSoS suth ''mach'' x = x"
  by (simp add: dimensionalize_def)

lemma dimensionalize_viscosityRatio: "dimensionalize inp refSoS suth ''viscosityRatio'' x = x"
  by (simp add: dimensionalize_def)

lemma dimensionalize_dt: "dimensionalize inp refSoS suth ''dt'' x = x / (refSoS * LRef inp)"
  by (simp add: dimensionalize_def)


lemma cells_defined_Some:
  "cells_defined b (\<lambda>ip jp kp. Some (f ip jp kp))"
  by (simp add: cells_defined_def list_all_iff)

lemma WriteFun_writable:
  assumes "Recombine join vars decomp = Some recombVars"
    and "opens (function_file_name inp solIter)"
    and "\<forall>ll<length recombVars. \<forall>var\<in>set (OutputVariables inp).
           writable vars recombVars decomp eqnState ll var"
  shows "WriteFun join opens vars eqnState suth solIter decomp inp =
           Finished (function_file vars recombVars decomp eqnState suth inp)"
proof -
  have "\<forall>ll\<in>set [0..<length recombVars]. \<forall>var\<in>set (OutputVariables inp).
          writable vars recombVars decomp eqnState ll var"
    using assms(3) by simp
  from write_blocks_writable [OF this]
  show ?thesis
    by (simp add: WriteFun_def assms(1,2) write_sizes_eq function_file_def)
qed

text \<open>The file when one variable of the list has a known list of values on every block.\<close>

lemma WriteFun_one_variable:
  assumes "Recombine join vars decomp = Some recombVars"
    and "opens (function_file_name inp solIter)"
    and "\<forall>ll<length recombVars. \<forall>var\<in>set (OutputVariables inp).
           var \<noteq> name \<longrightarrow> writable vars recombVars decomp eqnState ll var"
    and "\<And>ll. writable vars recombVars decomp eqnState ll name"
    and "\<And>ll. block_values vars recombVars decomp eqnState suth inp ll name = vals ll"
  shows "WriteFun join opens vars eqnState suth solIter decomp inp =
     Finished ([WriteInt (int (length recombVars))] @
       concat (map (block_sizes inp) recombVars) @
       concat (map (\<lambda>ll. concat (map (\<lambda>var.
            if var = name then vals ll
            else block_values vars recombVars decomp eqnState suth inp ll var)
          (OutputVariables inp))) [0..<length recombVars]))"
proof -
  have w: "\<forall>ll<length recombVars. \<forall>var\<in>set (OutputVariables inp).
             writable vars recombVars decomp eqnState ll var"
  proof (intro allI impI ballI)
    fix ll var
    assume ll: "ll < length recombVars" and var: "var \<in> set (OutputVariables inp)"
    show "writable vars recombVars decomp eqnState ll var"
    proof (cases "var = name")
      case True
      then show ?thesis by (simp add: assms(4))
    next
      case False
      then show ?thesis using assms(3) ll var by simp
    qed
  qed
  have f: "WriteFun join opens vars eqnState suth solIter decomp inp =
           Finished (function_file vars recombVars decomp eqnState suth inp)"
    using assms(1,2) w by (rule WriteFun_writable)
  have eq: "map (\<lambda>var. if var = name then vals ll
                       else block_values vars recombVars decomp eqnState suth inp ll var)
              (OutputVariables inp) =
            map (block_values vars recombVars decomp eqnState suth inp ll) (OutputVariables inp)"
    for ll
    by (rule map_cong) (simp_all add: assms(5))
  show ?thesis
    by (simp only: f function_file_def eq)
qed

lemma writable_mach: "writable vars recombVars decomp eqnState ll ''mach''"
  by (simp add: writable_def nondimensional_def Let_def cells_defined_Some)

lemma block_values_mach:
  "block_values vars recombVars decomp eqnState suth inp ll ''mach'' =
     cells (recombVars ! ll) (\<lambda>ii jj kk.
       WriteDouble (Mag (Velocity (interior (recombVars ! ll) ii jj kk)) /
                    SoS eqnState (P (interior (recombVars ! ll) ii jj kk))
                                 (Rho (interior (recombVars ! ll) ii jj kk))))"
  by (simp add: block_values_def variable_values_def nondimensional_def Let_def
      dimensionalize_mach interior_def)

text \<open>
  Claim C9. \<^verbatim>\<open>WriteFun\<close> accepts the name \<^verbatim>\<open>mach\<close>: when the file opens and the other
  names of the list can be written, \<^verbatim>\<open>WriteFun\<close> returns, and in the file, after the sizes,
  the values of \<^verbatim>\<open>mach\<close> on a block are, for every cell of the block without ghost cells
  and in the order of the cells, the magnitude of the velocity divided by the speed of sound
  at the pressure and density of the cell, with no scale factor: the pass that makes values
  dimensional leaves a value of this variable as it is.
\<close>

theorem WriteFun_mach:
  assumes "Recombine join vars decomp = Some recombVars"
    and "opens (function_file_name inp solIter)"
    and "\<forall>ll<length recombVars. \<forall>var\<in>set (OutputVariables inp).
           var \<noteq> ''mach'' \<longrightarrow> writable vars recombVars decomp eqnState ll var"
  shows "WriteFun join opens vars eqnState suth solIter decomp inp =
     Finished ([WriteInt (int (length recombVars))] @
       concat (map (block_sizes inp) recombVars) @
       concat (map (\<lambda>ll. concat (map (\<lambda>var.
            if var = ''mach''
            then cells (recombVars ! ll) (\<lambda>ii jj kk.
                   WriteDouble (Mag (Velocity (interior (recombVars ! ll) ii jj kk)) /
                                SoS eqnState (P (interior (recombVars ! ll) ii jj kk))
                                             (Rho (interior (recombVars ! ll) ii jj kk))))
            else block_values vars recombVars decomp eqnState suth inp ll var)
          (OutputVariables inp))) [0..<length recombVars])) \<and>
   dimensionalize inp refSoS suth ''mach'' x = x"
proof -
  have "WriteFun join opens vars eqnState suth solIter decomp inp =
     Finished ([WriteInt (int (length recombVars))] @
       concat (map (block_sizes inp) recombVars) @
       concat (map (\<lambda>ll. concat (map (\<lambda>var.
            if var = ''mach''
            then cells (recombVars ! ll) (\<lambda>ii jj kk.
                   WriteDouble (Mag (Velocity (interior (recombVars ! ll) ii jj kk)) /
                                SoS eqnState (P (interior (recombVars ! ll) ii jj kk))
                                             (Rho (interior (recombVars ! ll) ii jj kk))))
            else block_values vars recombVars decomp eqnState suth inp ll var)
          (OutputVariables inp))) [0..<length recombVars]))"
    using assms writable_mach block_values_mach by (rule WriteFun_one_variable)
  then show ?thesis by (simp only: dimensionalize_mach simp_thms)
qed

lemma Mag_3_4: "Mag \<lparr>X = 3, Y = 4, Z = 0\<rparr> = 5"
proof -
  have "sqrt (25 :: real) = 5" by (rule real_sqrt_unique) simp_all
  then show ?thesis by (simp add: Mag_def)
qed

theorem WriteFun_mach_witness:
  "Recombine join_sizes [moving_cell] no_splits = Some [moving_cell] \<and>
   writable [moving_cell] [moving_cell] no_splits sound_two 0 ''dt'' \<and>
   WriteFun join_sizes (\<lambda>name. True) [moving_cell] sound_two unit_suth 0 no_splits mach_and_dt =
     Finished [WriteInt 1, WriteInt 1, WriteInt 1, WriteInt 1, WriteInt 2,
               WriteDouble (1 / 4), WriteDouble (5 / 2)] \<and>
   dimensionalize mach_and_dt 2 unit_suth ''mach'' 7 = 7"
proof -
  have r: "Recombine join_sizes [moving_cell] no_splits = Some [moving_cell]"
    by (simp add: Recombine_def NumSplits_def no_splits_def)
  have d: "writable [moving_cell] [moving_cell] no_splits sound_two 0 ''dt''"
    by (simp add: writable_def nondimensional_def Let_def cells_defined_Some)
  have ov: "OutputVariables mach_and_dt = [''dt'', ''mach'']"
    by (simp add: mach_and_dt_def)
  have w: "\<forall>ll<length [moving_cell]. \<forall>var\<in>set (OutputVariables mach_and_dt).
             var \<noteq> ''mach'' \<longrightarrow> writable [moving_cell] [moving_cell] no_splits sound_two ll var"
    using d by (simp add: ov)
  have sz: "block_sizes mach_and_dt moving_cell = [WriteInt 1, WriteInt 1, WriteInt 1, WriteInt 2]"
    by (simp add: block_sizes_def mach_and_dt_def moving_cell_def unit_cell_def box_def)
  have dt: "block_values [moving_cell] [moving_cell] no_splits sound_two unit_suth mach_and_dt 0
              ''dt'' = [WriteDouble (1 / 4)]"
    by (simp add: block_values_def variable_values_def cells_def nondimensional_def Let_def
        dimensionalize_def mach_and_dt_def example_input_def moving_cell_def unit_cell_def
        box_def sound_two_def)
  have vel: "Velocity (interior moving_cell 0 0 0) = \<lparr>X = 3, Y = 4, Z = 0\<rparr>"
    by (simp add: Velocity_def interior_def moving_cell_def unit_cell_def box_def
        zero_primVars_def)
  have m: "cells moving_cell (\<lambda>ii jj kk.
             WriteDouble (Mag (Velocity (interior moving_cell ii jj kk)) /
                          SoS sound_two (P (interior moving_cell ii jj kk))
                                        (Rho (interior moving_cell ii jj kk)))) =
           [WriteDouble (5 / 2)]"
  proof -
    have "nat (NumI moving_cell) = 1" "nat (NumJ moving_cell) = 1" "nat (NumK moving_cell) = 1"
      by (simp_all add: moving_cell_def unit_cell_def box_def)
    then show ?thesis
      by (simp add: cells_def vel Mag_3_4 sound_two_def)
  qed
  note t = WriteFun_mach [OF r _ w, of "\<lambda>name. True" 0 unit_suth 2 7]
  have a: "WriteFun join_sizes (\<lambda>name. True) [moving_cell] sound_two unit_suth 0 no_splits
             mach_and_dt =
     Finished [WriteInt 1, WriteInt 1, WriteInt 1, WriteInt 1, WriteInt 2,
               WriteDouble (1 / 4), WriteDouble (5 / 2)]"
    using t [THEN conjunct1] by (simp add: ov sz dt m)
  have b: "dimensionalize mach_and_dt 2 unit_suth ''mach'' 7 = 7"
    using t [THEN conjunct2] by simp
  from r d a b show ?thesis by blast
qed

lemma writable_viscosityRatio:
  "writable vars recombVars decomp eqnState ll ''viscosityRatio''"
  by (simp add: writable_def nondimensional_def Let_def cells_defined_Some)

lemma block_values_viscosityRatio:
  "block_values vars recombVars decomp eqnState suth inp ll ''viscosityRatio'' =
     cells (recombVars ! ll) (\<lambda>ii jj kk.
       WriteDouble
         (if IsTurbulent (recombVars ! ll)
          then EddyViscosity (recombVars ! ll)
                 (NumGhosts (recombVars ! ll) + int ii) (NumGhosts (recombVars ! ll) + int jj)
                 (NumGhosts (recombVars ! ll) + int kk) /
               Viscosity (recombVars ! ll)
                 (NumGhosts (recombVars ! ll) + int ii) (NumGhosts (recombVars ! ll) + int jj)
                 (NumGhosts (recombVars ! ll) + int kk)
          else 0))"
  by (simp add: block_values_def variable_values_def nondimensional_def Let_def
      dimensionalize_viscosityRatio)

text \<open>
  Claim C10. When the file opens and the other names of the list can be written,
  \<^verbatim>\<open>WriteFun\<close> returns, and in the file the values of \<^verbatim>\<open>viscosityRatio\<close> on a block are,
  for every cell of the block without ghost cells and in the order of the cells, 0 when the
  block is not turbulent, and the eddy viscosity divided by the viscosity at the cell, read
  behind the ghost layers, when it is; no scale factor is applied.
\<close>

theorem WriteFun_viscosityRatio:
  assumes "Recombine join vars decomp = Some recombVars"
    and "opens (function_file_name inp solIter)"
    and "\<forall>ll<length recombVars. \<forall>var\<in>set (OutputVariables inp).
           var \<noteq> ''viscosityRatio'' \<longrightarrow> writable vars recombVars decomp eqnState ll var"
  shows "WriteFun join opens vars eqnState suth solIter decomp inp =
     Finished ([WriteInt (int (length recombVars))] @
       concat (map (block_sizes inp) recombVars) @
       concat (map (\<lambda>ll. concat (map (\<lambda>var.
            if var = ''viscosityRatio''
            then cells (recombVars ! ll) (\<lambda>ii jj kk.
                   WriteDouble
                     (if IsTurbulent (recombVars ! ll)
                      then EddyViscosity (recombVars ! ll)
                             (NumGhosts (recombVars ! ll) + int ii)
                             (NumGhosts (recombVars ! ll) + int jj)
                             (NumGhosts (recombVars ! ll) + int kk) /
                           Viscosity (recombVars ! ll)
                             (NumGhosts (recombVars ! ll) + int ii)
                             (NumGhosts (recombVars ! ll) + int jj)
                             (NumGhosts (recombVars ! ll) + int kk)
                      else 0))
            else block_values vars recombVars decomp eqnState suth inp ll var)
          (OutputVariables inp))) [0..<length recombVars])) \<and>
   dimensionalize inp refSoS suth ''viscosityRatio'' x = x"
proof -
  have "WriteFun join opens vars eqnState suth solIter decomp inp =
     Finished ([WriteInt (int (length recombVars))] @
       concat (map (block_sizes inp) recombVars) @
       concat (map (\<lambda>ll. concat (map (\<lambda>var.
            if var = ''viscosityRatio''
            then cells (recombVars ! ll) (\<lambda>ii jj kk.
                   WriteDouble
                     (if IsTurbulent (recombVars ! ll)
                      then EddyViscosity (recombVars ! ll)
                             (NumGhosts (recombVars ! ll) + int ii)
                             (NumGhosts (recombVars ! ll) + int jj)
                             (NumGhosts (recombVars ! ll) + int kk) /
                           Viscosity (recombVars ! ll)
                             (NumGhosts (recombVars ! ll) + int ii)
                             (NumGhosts (recombVars ! ll) + int jj)
                             (NumGhosts (recombVars ! ll) + int kk)
                      else 0))
            else block_values vars recombVars decomp eqnState suth inp ll var)
          (OutputVariables inp))) [0..<length recombVars]))"
    using assms writable_viscosityRatio block_values_viscosityRatio
    by (rule WriteFun_one_variable)
  then show ?thesis by (simp only: dimensionalize_viscosityRatio simp_thms)
qed

theorem WriteFun_viscosityRatio_witness:
  "Recombine join_sizes [laminar_cell, turbulent_cell] no_splits =
     Some [laminar_cell, turbulent_cell] \<and>
   writable [laminar_cell, turbulent_cell] [laminar_cell, turbulent_cell] no_splits unit_gas 0
     ''dt'' \<and>
   writable [laminar_cell, turbulent_cell] [laminar_cell, turbulent_cell] no_splits unit_gas 1
     ''dt'' \<and>
   WriteFun join_sizes (\<lambda>name. True) [laminar_cell, turbulent_cell] unit_gas unit_suth 0
     no_splits ratio_and_dt =
     Finished [WriteInt 2, WriteInt 1, WriteInt 1, WriteInt 1, WriteInt 2,
               WriteInt 1, WriteInt 1, WriteInt 1, WriteInt 2,
               WriteDouble 0, WriteDouble 0, WriteDouble 0, WriteDouble 2] \<and>
   dimensionalize ratio_and_dt 1 unit_suth ''viscosityRatio'' 7 = 7"
proof -
  let ?bs = "[laminar_cell, turbulent_cell]"
  have r: "Recombine join_sizes ?bs no_splits = Some ?bs"
    by (simp add: Recombine_def NumSplits_def no_splits_def)
  have d0: "writable ?bs ?bs no_splits unit_gas 0 ''dt''"
    and d1: "writable ?bs ?bs no_splits unit_gas 1 ''dt''"
    by (simp_all add: writable_def nondimensional_def Let_def cells_defined_Some)
  have ov: "OutputVariables ratio_and_dt = [''dt'', ''viscosityRatio'']"
    by (simp add: ratio_and_dt_def)
  have w: "\<forall>ll<length ?bs. \<forall>var\<in>set (OutputVariables ratio_and_dt).
             var \<noteq> ''viscosityRatio'' \<longrightarrow> writable ?bs ?bs no_splits unit_gas ll var"
    using d0 d1 by (simp add: ov less_Suc_eq)
  have sz: "block_sizes ratio_and_dt laminar_cell = [WriteInt 1, WriteInt 1, WriteInt 1, WriteInt 2]"
    "block_sizes ratio_and_dt turbulent_cell = [WriteInt 1, WriteInt 1, WriteInt 1, WriteInt 2]"
    by (simp_all add: block_sizes_def ratio_and_dt_def laminar_cell_def turbulent_cell_def box_def)
  have dt: "block_values ?bs ?bs no_splits unit_gas unit_suth ratio_and_dt 0 ''dt'' = [WriteDouble 0]"
    "block_values ?bs ?bs no_splits unit_gas unit_suth ratio_and_dt (Suc 0) ''dt'' = [WriteDouble 0]"
    by (simp_all add: block_values_def variable_values_def cells_def nondimensional_def Let_def
        dimensionalize_def ratio_and_dt_def example_input_def laminar_cell_def
        turbulent_cell_def box_def unit_gas_def)
  have c0: "cells laminar_cell (\<lambda>ii jj kk. WriteDouble (f ii jj kk)) = [WriteDouble (f 0 0 0)]"
    and c1: "cells turbulent_cell (\<lambda>ii jj kk. WriteDouble (f ii jj kk)) = [WriteDouble (f 0 0 0)]"
    for f
    by (simp_all add: cells_def laminar_cell_def turbulent_cell_def box_def)
  have v: "IsTurbulent laminar_cell = False" "IsTurbulent turbulent_cell = True"
    "EddyViscosity turbulent_cell i j k = 6" "Viscosity turbulent_cell i j k = 3" for i j k
    by (simp_all add: laminar_cell_def turbulent_cell_def box_def)
  note t = WriteFun_viscosityRatio [OF r _ w, of "\<lambda>name. True" 0 unit_suth 1 7]
  have a: "WriteFun join_sizes (\<lambda>name. True) ?bs unit_gas unit_suth 0 no_splits ratio_and_dt =
     Finished [WriteInt 2, WriteInt 1, WriteInt 1, WriteInt 1, WriteInt 2,
               WriteInt 1, WriteInt 1, WriteInt 1, WriteInt 2,
               WriteDouble 0, WriteDouble 0, WriteDouble 0, WriteDouble 2]"
    using t [THEN conjunct1]
    by (simp add: ov sz dt c0 c1 v upt_conv_Cons)
  have b: "dimensionalize ratio_and_dt 1 unit_suth ''viscosityRatio'' 7 = 7"
    using t [THEN conjunct2] by simp
  from r d0 d1 a b show ?thesis by blast
qed

text \<open>
  Claim C4. The time step is to be written multiplied by \<open>L / a\<close>, the reference length over
  the reference speed of sound. The source has \<^verbatim>\<open>dumDouble /= refSoS * inp.LRef()\<close>, which
  divides by the product \<open>a * L\<close> (lemma \<open>dimensionalize_dt\<close>). For one cell with time
  step 1, reference speed of sound 1 and reference length 2 the file holds \<open>1 / 2\<close>, while
  the time step times \<open>L / a\<close> is 2.
\<close>

theorem WriteFun_dt_scale:
  "WriteFun join_sizes (\<lambda>name. True) [unit_cell] unit_gas unit_suth 0 no_splits example_input =
     Finished [WriteInt 1, WriteInt 1, WriteInt 1, WriteInt 1, WriteInt 1, WriteDouble (1 / 2)] \<and>
   Dt unit_cell 0 0 0 *
     (LRef example_input / SoS unit_gas (PRef example_input) (RRef example_input)) = 2"
  by (simp add: WriteFun_def Recombine_def NumSplits_def no_splits_def function_file_name_def
      write_sizes_def example_input_def unit_cell_def box_def write_variable_def
      nondimensional_def fill_dumArr_def write_dimensional_def dimensionalize_def unit_gas_def)


lemma write_variables_append:
  "write_variables vars recombVars decomp eqnState suth inp refSoS ll (xs @ ys) st =
     (case write_variables vars recombVars decomp eqnState suth inp refSoS ll xs st of
        Finished st' \<Rightarrow> write_variables vars recombVars decomp eqnState suth inp refSoS ll ys st'
      | Exit code msg written \<Rightarrow> Exit code msg written
      | Undefined_behaviour \<Rightarrow> Undefined_behaviour)"
  by (induction xs arbitrary: st) (simp_all split: process.splits)

lemma write_variable_unknown:
  "var \<notin> set recognized \<Longrightarrow>
   write_variable vars recombVars decomp eqnState suth inp refSoS ll var (arr, out) =
     Exit EXIT_FAILURE (unknown_variable var) out"
  by (simp add: write_variable_def nondimensional_unknown)

lemma write_variables_unknown:
  assumes "\<forall>v\<in>set known. writable vars recombVars decomp eqnState ll v"
    and "var \<notin> set recognized"
  shows "write_variables vars recombVars decomp eqnState suth inp
           (SoS eqnState (PRef inp) (RRef inp)) ll (known @ var # rest) (arr, out) =
         Exit EXIT_FAILURE (unknown_variable var)
           (out @ concat (map (block_values vars recombVars decomp eqnState suth inp ll) known))"
proof -
  from write_variables_writable [OF assms(1), of suth inp arr out]
  obtain arr' where "write_variables vars recombVars decomp eqnState suth inp
       (SoS eqnState (PRef inp) (RRef inp)) ll known (arr, out) =
     Finished (arr', out @ concat (map (block_values vars recombVars decomp eqnState suth inp ll) known))"
    by blast
  then show ?thesis
    by (simp add: write_variables_append write_variable_unknown [OF assms(2)])
qed

lemma WriteFun_first_unknown:
  assumes "Recombine join vars decomp = Some recombVars"
    and "opens (function_file_name inp solIter)"
    and "recombVars \<noteq> []"
    and "OutputVariables inp = known @ var # rest"
    and "var \<notin> set recognized"
    and "\<forall>v\<in>set known. writable vars recombVars decomp eqnState 0 v"
  shows "WriteFun join opens vars eqnState suth solIter decomp inp =
         Exit EXIT_FAILURE (unknown_variable var)
           ([WriteInt (int (length recombVars))] @ concat (map (block_sizes inp) recombVars) @
            concat (map (block_values vars recombVars decomp eqnState suth inp 0) known))"
proof -
  have up: "[0..<length recombVars] = 0 # [1..<length recombVars]"
    using assms(3) by (simp add: upt_conv_Cons)
  show ?thesis
    by (simp add: WriteFun_def assms(1,2) write_sizes_eq up
        write_variables_unknown [OF assms(6,5), unfolded assms(4) [symmetric]]
        assms(4))
qed

lemma WriteFun_no_blocks:
  assumes "Recombine join vars decomp = Some []"
    and "opens (function_file_name inp solIter)"
  shows "WriteFun join opens vars eqnState suth solIter decomp inp = Finished [WriteInt 0]"
  using assms by (simp add: WriteFun_def write_sizes_def)

text \<open>
  Claim C8. A name that the chain of comparisons does not know is fatal: when the file has
  opened and there is a block to write, \<^verbatim>\<open>WriteFun\<close> calls \<^verbatim>\<open>exit(EXIT_FAILURE)\<close>, which
  is not zero, after reporting the first unknown name of the list on \<^verbatim>\<open>cerr\<close>; by then it
  has written the sizes and, for the first block, the variables that precede that name.
  The names are compared inside the loop over the blocks, which is why a block is needed
  (lemma \<open>WriteFun_no_blocks\<close>); the last hypothesis says that the known names of the list
  can be computed on the first block, which only \<^verbatim>\<open>rank\<close> and \<^verbatim>\<open>globalPosition\<close> may fail
  to be.
\<close>

theorem WriteFun_unknown_variable:
  assumes "Recombine join vars decomp = Some recombVars"
    and "opens (function_file_name inp solIter)"
    and "recombVars \<noteq> []"
    and "var \<in> set (OutputVariables inp)"
    and "var \<notin> set recognized"
    and "\<forall>v\<in>set (OutputVariables inp).
           v \<in> set recognized \<longrightarrow> writable vars recombVars decomp eqnState 0 v"
  shows "\<exists>known v rest.
           OutputVariables inp = known @ v # rest \<and> set known \<subseteq> set recognized \<and>
           v \<notin> set recognized \<and>
           WriteFun join opens vars eqnState suth solIter decomp inp =
             Exit EXIT_FAILURE (unknown_variable v)
               ([WriteInt (int (length recombVars))] @
                concat (map (block_sizes inp) recombVars) @
                concat (map (block_values vars recombVars decomp eqnState suth inp 0) known)) \<and>
           EXIT_FAILURE \<noteq> 0"
proof -
  from assms(4,5) have "\<exists>v\<in>set (OutputVariables inp). v \<notin> set recognized" by blast
  then obtain known v rest where split: "OutputVariables inp = known @ v # rest"
    and v: "v \<notin> set recognized" and known: "\<forall>y\<in>set known. \<not> y \<notin> set recognized"
    by (rule split_list_first_propE) blast
  have w: "\<forall>y\<in>set known. writable vars recombVars decomp eqnState 0 y"
    using assms(6) known split by simp
  have "WriteFun join opens vars eqnState suth solIter decomp inp =
         Exit EXIT_FAILURE (unknown_variable v)
           ([WriteInt (int (length recombVars))] @ concat (map (block_sizes inp) recombVars) @
            concat (map (block_values vars recombVars decomp eqnState suth inp 0) known))"
    using assms(1-3) split v w by (rule WriteFun_first_unknown)
  moreover have "set known \<subseteq> set recognized" using known by blast
  moreover have "EXIT_FAILURE \<noteq> 0" by (simp add: EXIT_FAILURE_def)
  ultimately show ?thesis using split v by blast
qed

theorem WriteFun_unknown_variable_witness:
  "Recombine join_sizes [unit_cell] no_splits = Some [unit_cell] \<and>
   [unit_cell] \<noteq> [] \<and>
   ''bogus'' \<in> set (OutputVariables bogus_variable) \<and>
   ''bogus'' \<notin> set recognized \<and>
   writable [unit_cell] [unit_cell] no_splits unit_gas 0 ''dt'' \<and>
   (\<exists>known v rest.
      OutputVariables bogus_variable = known @ v # rest \<and> set known \<subseteq> set recognized \<and>
      v \<notin> set recognized \<and>
      WriteFun join_sizes (\<lambda>name. True) [unit_cell] unit_gas unit_suth 0 no_splits bogus_variable =
        Exit EXIT_FAILURE (unknown_variable v)
          ([WriteInt (int (length [unit_cell]))] @
           concat (map (block_sizes bogus_variable) [unit_cell]) @
           concat (map (block_values [unit_cell] [unit_cell] no_splits unit_gas unit_suth
                          bogus_variable 0) known)) \<and>
      EXIT_FAILURE \<noteq> 0) \<and>
   WriteFun join_sizes (\<lambda>name. True) [unit_cell] unit_gas unit_suth 0 no_splits bogus_variable =
     Exit 1 (''ERROR: Variable bogus to write to function file is not defined!'' @ [CHR 0x0A])
       [WriteInt 1, WriteInt 1, WriteInt 1, WriteInt 1, WriteInt 3, WriteDouble (1 / 2)]"
proof -
  have r: "Recombine join_sizes [unit_cell] no_splits = Some [unit_cell]"
    by (simp add: Recombine_def NumSplits_def no_splits_def)
  have m: "''bogus'' \<in> set (OutputVariables bogus_variable)"
    by (simp add: bogus_variable_def)
  have u: "''bogus'' \<notin> set recognized"
    unfolding recognized_def by simp
  have d: "writable [unit_cell] [unit_cell] no_splits unit_gas 0 ''dt''"
    by (simp add: writable_def nondimensional_def cells_defined_def Let_def list_all_iff)
  have w: "\<forall>v\<in>set (OutputVariables bogus_variable).
             v \<in> set recognized \<longrightarrow> writable [unit_cell] [unit_cell] no_splits unit_gas 0 v"
    using d u by (simp add: bogus_variable_def writable_def nondimensional_def
        cells_defined_def Let_def list_all_iff)
  note t = WriteFun_unknown_variable [OF r _ _ m u w, of "\<lambda>name. True" 0 unit_suth]
  have e: "WriteFun join_sizes (\<lambda>name. True) [unit_cell] unit_gas unit_suth 0 no_splits
             bogus_variable =
     Exit 1 (''ERROR: Variable bogus to write to function file is not defined!'' @ [CHR 0x0A])
       [WriteInt 1, WriteInt 1, WriteInt 1, WriteInt 1, WriteInt 3, WriteDouble (1 / 2)]"
    by (simp add: WriteFun_def Recombine_def NumSplits_def no_splits_def function_file_name_def
      write_sizes_def bogus_variable_def example_input_def unit_cell_def box_def
      write_variable_def nondimensional_def fill_dumArr_def write_dimensional_def
      dimensionalize_def unit_gas_def EXIT_FAILURE_def unknown_variable_def endl_def)
  from r m u d t e show ?thesis by simp
qed


subsection \<open>Files that do not open\<close>

text \<open>
  Claim C7. Each of the three writers, of the cell centers, of the function file and of the
  results file, tests the stream right after it has been constructed: when the file has not
  opened, the writer sends an error message with the name of the file to \<^verbatim>\<open>cerr\<close> and
  calls \<^verbatim>\<open>exit(EXIT_FAILURE)\<close>, which is not zero, and nothing has been written to the file.
  The first two recombine the blocks before they open the file, so for them the
  recombination is taken to have returned.
\<close>

theorem output_file_open_failure:
  "(Recombine join vars decomp = Some recombVars \<longrightarrow> \<not> opens (cell_center_file_name gridName) \<longrightarrow>
      WriteCellCenter join opens gridName vars decomp refLength =
        Exit EXIT_FAILURE (grid_file_error (cell_center_file_name gridName)) []) \<and>
   (Recombine join vars decomp = Some recombVars \<longrightarrow> \<not> opens (function_file_name inp solIter) \<longrightarrow>
      WriteFun join opens vars eqnState suth solIter decomp inp =
        Exit EXIT_FAILURE (function_file_error (function_file_name inp solIter)) []) \<and>
   (\<not> opens (results_file_name inp) \<longrightarrow>
      WriteRes opens inp iter =
        Exit EXIT_FAILURE (results_file_error (results_file_name inp)) []) \<and>
   EXIT_FAILURE \<noteq> 0"
  by (simp add: WriteCellCenter_def WriteFun_def WriteRes_def EXIT_FAILURE_def Let_def)

theorem output_file_open_failure_witness:
  "Recombine join_sizes [ramp] no_splits = Some [ramp] \<and>
   WriteCellCenter join_sizes (\<lambda>name. False) ''grid'' [ramp] no_splits 2 =
     Exit 1 (''ERROR: Grid file grid_center.xyz did not open correctly!!!'' @ [CHR 0x0A]) [] \<and>
   WriteFun join_sizes (\<lambda>name. False) [ramp] unit_gas unit_suth 7 no_splits two_variables =
     Exit 1 (''ERROR: Function file sim_7_center.fun did not open correctly!!!'' @ [CHR 0x0A]) [] \<and>
   WriteRes (\<lambda>name. False) two_variables 7 =
     Exit 1 (''ERROR: Results file sim_center.res did not open correctly!!!'' @ [CHR 0x0A]) []"
proof -
  have r: "Recombine join_sizes [ramp] no_splits = Some [ramp]"
    by (simp add: Recombine_def NumSplits_def no_splits_def)
  note t = output_file_open_failure [of join_sizes "[ramp]" no_splits "[ramp]" "\<lambda>name. False"
      "''grid''" 2 two_variables 7 unit_gas unit_suth 7]
  have n1: "cell_center_file_name ''grid'' = ''grid_center.xyz''"
    by (simp add: cell_center_file_name_def)
  have n2: "function_file_name two_variables 7 = ''sim_7_center.fun''"
    by (simp add: function_file_name_def two_variables_def example_input_def to_string_def
        digits.simps)
  have n3: "results_file_name two_variables = ''sim_center.res''"
    by (simp add: results_file_name_def two_variables_def example_input_def)
  from t r show ?thesis
    by (simp add: n1 n2 n3 grid_file_error_def function_file_error_def results_file_error_def
        EXIT_FAILURE_def endl_def)
qed

end
